theory Spec2Isabelle
  imports Main "HOL-Library.Sublist" "HOL-Library.AList"
begin

section \<open>JavaScript values and strings\<close>

text \<open>
  Tool arguments and tool results are plain JavaScript objects (\<^verbatim>\<open>Record<string, any>\<close>,
  \<^verbatim>\<open>Promise<any>\<close>). They are modelled as a JSON datatype; a property that is absent
  (\<^verbatim>\<open>undefined\<close>) is \<open>None\<close> at the place where it is looked up. Numbers are integers
  here; timestamps are milliseconds since the epoch.
\<close>

datatype json =
    JNull
  | JBool bool
  | JNum int
  | JStr string
  | JArr "json list"
  | JObj "(string \<times> json) list"

text \<open>JavaScript truthiness, as used by \<^verbatim>\<open>!x\<close>, \<^verbatim>\<open>x || y\<close> and \<^verbatim>\<open>x ? a : b\<close>.\<close>

fun truthy :: "json \<Rightarrow> bool" where
  "truthy JNull = False"
| "truthy (JBool b) = b"
| "truthy (JNum n) = (n \<noteq> 0)"
| "truthy (JStr s) = (s \<noteq> [])"
| "truthy (JArr xs) = True"
| "truthy (JObj kvs) = True"

definition falsy :: "json option \<Rightarrow> bool" where
  "falsy v = (case v of None \<Rightarrow> True | Some j \<Rightarrow> \<not> truthy j)"

text \<open>Property lookup \<^verbatim>\<open>obj.key\<close> on an object literal (the last write of a key wins in a
  literal with spreads; the lists built below never repeat a key).\<close>

fun field :: "string \<Rightarrow> json \<Rightarrow> json option" where
  "field k (JObj kvs) = map_of kvs k"
| "field k v = None"

definition newline :: char where
  "newline = CHR 0x0A"

definition dquote :: char where
  "dquote = CHR 0x22"

text \<open>\<^verbatim>\<open>String.prototype.toLowerCase\<close> on the ASCII letters (strings are byte lists here).\<close>

definition lowerChar :: "char \<Rightarrow> char" where
  "lowerChar c = (let n = (of_char c :: nat) in if 65 \<le> n \<and> n \<le> 90 then char_of (n + 32) else c)"

definition toLowerCase :: "string \<Rightarrow> string" where
  "toLowerCase s = map lowerChar s"

definition endsWith :: "string \<Rightarrow> string \<Rightarrow> bool" where
  "endsWith s sfx = suffix sfx s"

definition startsWith :: "string \<Rightarrow> string \<Rightarrow> bool" where
  "startsWith s pfx = prefix pfx s"

definition includes_str :: "string \<Rightarrow> string \<Rightarrow> bool" where
  "includes_str s sub = sublist sub s"

text \<open>\<^verbatim>\<open>s.split(c)\<close> for a one-character separator: always at least one piece.\<close>

fun split :: "char \<Rightarrow> string \<Rightarrow> string list" where
  "split c [] = [[]]"
| "split c (x # xs) =
     (if x = c then [] # split c xs
      else (case split c xs of [] \<Rightarrow> [[x]] | p # ps \<Rightarrow> (x # p) # ps))"

fun join :: "string \<Rightarrow> string list \<Rightarrow> string" where
  "join sep [] = []"
| "join sep [p] = p"
| "join sep (p # q # ps) = p @ sep @ join sep (q # ps)"

section \<open>Data model (interfaces/chat.types)\<close>

datatype error =
    Error string
  | AppError string nat

fun message_of :: "error \<Rightarrow> string" where
  "message_of (Error m) = m"
| "message_of (AppError m c) = m"

record FunctionCall =
  fc_name :: string
  fc_arguments :: "(string \<times> json) list"

record FunctionResponse =
  fr_name :: string
  fr_response :: json

text \<open>A message part is an object with three optional properties, as in the source.\<close>

record MessagePart =
  text_part :: "string option"
  functionCall :: "FunctionCall option"
  functionResponse :: "FunctionResponse option"

datatype Role = User | Model | Tool

record ChatMessage =
  role :: Role
  parts :: "MessagePart list"

text \<open>\<open>fileId\<close> stands for both \<^verbatim>\<open>id\<close> and \<^verbatim>\<open>fileId\<close>, which every constructor of a
  session file sets to the same value.\<close>

record SessionFile =
  fileId :: string
  originalName :: string
  filename :: string
  path :: string
  size_bytes :: nat
  uploadedAt :: int
  status :: string

record SessionJob =
  jobId :: string
  jobStatus :: string

record PricingContext =
  content :: string
  fileName :: string
  contextFileId :: string

text \<open>\<open>sessionId\<close> stands for both \<^verbatim>\<open>id\<close> and \<^verbatim>\<open>sessionId\<close> of a chat session.\<close>

record ChatSession =
  sessionId :: string
  createdAt :: int
  lastActivity :: int
  messages :: "ChatMessage list"
  files :: "SessionFile list"
  jobs :: "SessionJob list"
  activeJobs :: "SessionJob list"
  transformationTasks :: "SessionJob list"
  pricingContext :: "PricingContext option"

section \<open>The process state\<close>

record DiskFile =
  bytes :: string
  mtime :: int

text \<open>
  The system instruction of a generative model is \<^verbatim>\<open>getSystemPrompt(pricingContent,
  pricingFileName)\<close>: fixed prose around the section \<^verbatim>\<open>currentPricingSection\<close>, which is
  empty when \<^verbatim>\<open>pricingContent\<close> is falsy and otherwise embeds the content and, when
  truthy, the file name. The fixed prose does not depend on any state, so the prompt is
  represented by that section alone.
\<close>

datatype SystemPrompt =
    NoPricingSection
  | PricingSection "string option" string

definition getSystemPrompt :: "string option \<Rightarrow> string option \<Rightarrow> SystemPrompt" where
  "getSystemPrompt pricingContent pricingFileName =
     (case pricingContent of
        None \<Rightarrow> NoPricingSection
      | Some c \<Rightarrow>
          if c = [] then NoPricingSection
          else PricingSection
                 (case pricingFileName of
                    None \<Rightarrow> None
                  | Some n \<Rightarrow> if n = [] then None else Some n) c)"

text \<open>A \<^verbatim>\<open>GeminiService\<close> instance: its two context fields, the system instruction of
  \<^verbatim>\<open>this.model\<close>, and the \<^verbatim>\<open>taskUrlMap\<close> of its own \<^verbatim>\<open>ToolOrchestrationService\<close>.\<close>

record GeminiService =
  currentPricingContent :: "string option"
  currentPricingFileName :: "string option"
  model :: SystemPrompt
  taskUrlMap :: "(string \<times> string) list"

text \<open>
  The process holds the controller's session map, the file system, the controller's own
  \<^verbatim>\<open>GeminiService\<close> (\<^verbatim>\<open>this.geminiService\<close>), the module-level instance exported as
  \<^verbatim>\<open>geminiService\<close>, and the number of identifiers \<^verbatim>\<open>uuidv4()\<close> has handed out.

  There are two \<^verbatim>\<open>ChatController\<close> objects, each with its own session map: the one
  \<^verbatim>\<open>routes/chatRoutes\<close> creates, whose methods every route is bound to (\<open>sessions\<close>),
  and the one \<^verbatim>\<open>server.ts\<close> creates and hands to \<^verbatim>\<open>SchedulerService\<close>
  (\<open>schedulerSessions\<close>). The request handlers below are the methods of the first.
\<close>

record World =
  sessions :: "(string \<times> ChatSession) list"
  schedulerSessions :: "(string \<times> ChatSession) list"
  disk :: "(string \<times> DiskFile) list"
  geminiService :: GeminiService
  geminiSingleton :: GeminiService
  uuidCount :: nat

definition quoted :: "string \<Rightarrow> string" where
  "quoted p = [CHR 0x27] @ p @ [CHR 0x27]"

definition existsSync :: "World \<Rightarrow> string \<Rightarrow> bool" where
  "existsSync w p = (map_of (disk w) p \<noteq> None)"

definition readFileSync :: "World \<Rightarrow> string \<Rightarrow> error + string" where
  "readFileSync w p =
     (case map_of (disk w) p of
        None \<Rightarrow> Inl (Error (''ENOENT: no such file or directory, open '' @ quoted p))
      | Some f \<Rightarrow> Inr (bytes f))"

definition getSession :: "World \<Rightarrow> string \<Rightarrow> ChatSession option" where
  "getSession w sid = map_of (sessions w) sid"

definition setSession :: "World \<Rightarrow> string \<Rightarrow> ChatSession \<Rightarrow> World" where
  "setSession w sid s = w\<lparr>sessions := AList.update sid s (sessions w)\<rparr>"

section \<open>External collaborators\<close>

record TransformResponse =
  task_id :: string
  start_status :: string
  start_message :: string

record TransformationResult =
  result_status :: string
  yamlContent :: "string option"
  result_error :: "json option"
  canBeUsedForAnalysis :: "bool option"

record GeminiContent =
  content_role :: string
  content_parts :: "MessagePart list"

record GenerateContentResponse =
  response_functionCalls :: "(string \<times> (string \<times> json) list option) list option"
  response_text :: string
  promptTokenCount :: "nat option"
  candidatesTokenCount :: "nat option"
  totalTokenCount :: "nat option"

text \<open>
  Everything outside the process is a parameter: the identifier generator, the YAML
  parser, the URL parser (\<open>None\<close> when \<^verbatim>\<open>new URL(x)\<close> throws), the analysis and
  transformation clients (each call either throws or returns), whether the transformation
  client is configured, and the generative model, which is called with a system
  instruction and a conversation. The file system decides whether a write at a path
  succeeds (it fails, for one, when the directory of the path does not exist) and whether
  an existing path can be unlinked.
\<close>

record Env =
  uuid :: "nat \<Rightarrow> string"
  yamlLoad :: "string \<Rightarrow> error + json"
  urlHostname :: "string \<Rightarrow> string option"
  getSummary :: "string \<Rightarrow> error + json"
  startAnalysisJob :: "string \<Rightarrow> json \<Rightarrow> json \<Rightarrow> json option \<Rightarrow> json option \<Rightarrow> json option \<Rightarrow> error + json"
  getJobStatus :: "json \<Rightarrow> error + json"
  transformationAPI :: bool
  startTransformation :: "json \<Rightarrow> json option \<Rightarrow> json option \<Rightarrow> error + TransformResponse"
  getTransformationStatus :: "json \<Rightarrow> error + TransformationResult"
  generateContent :: "SystemPrompt \<Rightarrow> GeminiContent list \<Rightarrow> error + GenerateContentResponse"
  fsWriteError :: "string \<Rightarrow> error option"
  fsUnlinkError :: "string \<Rightarrow> error option"

text \<open>\<^verbatim>\<open>fs.writeFileSync\<close> and \<^verbatim>\<open>fs.unlinkSync\<close>: each throws the error of the file system
  when it refuses the path, and changes nothing then.\<close>

definition fsWritable :: "Env \<Rightarrow> string \<Rightarrow> bool" where
  "fsWritable env p = (fsWriteError env p = None)"

definition fsUnlinkable :: "Env \<Rightarrow> string \<Rightarrow> bool" where
  "fsUnlinkable env p = (fsUnlinkError env p = None)"

definition writeFileSync :: "Env \<Rightarrow> World \<Rightarrow> string \<Rightarrow> string \<Rightarrow> int \<Rightarrow> error + World" where
  "writeFileSync env w p c now =
     (case fsWriteError env p of
        None \<Rightarrow> Inr (w\<lparr>disk := AList.update p \<lparr>bytes = c, mtime = now\<rparr> (disk w)\<rparr>)
      | Some e \<Rightarrow> Inl e)"

definition unlinkSync :: "Env \<Rightarrow> World \<Rightarrow> string \<Rightarrow> error + World" where
  "unlinkSync env w p =
     (if map_of (disk w) p = None
      then Inl (Error (''ENOENT: no such file or directory, unlink '' @ quoted p))
      else (case fsUnlinkError env p of
              None \<Rightarrow> Inr (w\<lparr>disk := AList.delete p (disk w)\<rparr>)
            | Some e \<Rightarrow> Inl e))"

text \<open>\<^verbatim>\<open>String.prototype.length\<close> counts UTF-16 code units. Strings are UTF-8 byte lists
  here: a byte below 128 or a lead byte of a two- or three-byte sequence starts one unit,
  a lead byte of a four-byte sequence starts two, a continuation byte none.\<close>

definition utf16Units :: "char \<Rightarrow> nat" where
  "utf16Units c =
     (let n = (of_char c :: nat)
      in if n < 128 then 1 else if n < 192 then 0 else if n < 240 then 1 else 2)"

definition jsLength :: "string \<Rightarrow> nat" where
  "jsLength s = sum_list (map utf16Units s)"

text \<open>\<^verbatim>\<open>s.substring(0, n)\<close>: the first \<open>n\<close> code units of a well-formed string. When the
  cut falls inside a character of two units, its first unit stays: a lone high
  surrogate, written here in the three-byte form of its code.\<close>

definition highSurrogate :: "char \<Rightarrow> char \<Rightarrow> char \<Rightarrow> char \<Rightarrow> string" where
  "highSurrogate b0 b1 b2 b3 =
     (let cp = (of_char b0 mod 8) * 262144 + (of_char b1 mod 64) * 4096
               + (of_char b2 mod 64) * 64 + (of_char b3 mod 64 :: nat);
          hs = 55296 + (cp - 65536) div 1024
      in [char_of (237 :: nat), char_of (128 + (hs div 64) mod 64), char_of (128 + hs mod 64)])"

fun jsPrefix :: "nat \<Rightarrow> string \<Rightarrow> string" where
  "jsPrefix n [] = []"
| "jsPrefix n (c # cs) =
     (if utf16Units c = 0 then c # jsPrefix n cs
      else if utf16Units c \<le> n then c # jsPrefix (n - utf16Units c) cs
      else if n = 1
      then (case cs of b1 # b2 # b3 # rest \<Rightarrow> highSurrogate c b1 b2 b3 | _ \<Rightarrow> [])
      else [])"

section \<open>GeminiService: the shared model configuration\<close>

definition gemini_updatePricingContext :: "GeminiService \<Rightarrow> string \<Rightarrow> string option \<Rightarrow> GeminiService" where
  "gemini_updatePricingContext g pricingContent pricingFileName =
     g\<lparr>currentPricingContent := Some pricingContent,
       currentPricingFileName := pricingFileName,
       model := getSystemPrompt (Some pricingContent) pricingFileName\<rparr>"

definition gemini_clearPricingContext :: "GeminiService \<Rightarrow> GeminiService" where
  "gemini_clearPricingContext g =
     g\<lparr>currentPricingContent := None,
       currentPricingFileName := None,
       model := getSystemPrompt None None\<rparr>"

definition createModelWithSessionContext :: "string option \<Rightarrow> string option \<Rightarrow> SystemPrompt" where
  "createModelWithSessionContext pricingContent pricingFileName =
     getSystemPrompt pricingContent pricingFileName"

section \<open>FileManager\<close>

record MulterFile =
  originalname :: string
  multer_path :: string
  multer_size :: nat

text \<open>\<^verbatim>\<open>path.basename\<close>: the part after the last slash.\<close>

definition basename :: "string \<Rightarrow> string" where
  "basename p = last (split (CHR ''/'') p)"

text \<open>\<^verbatim>\<open>uuidv4()\<close> draws a fresh identifier: the generator \<open>uuid env\<close>, indexed by the
  number of identifiers drawn so far.\<close>

definition saveUploadedFile ::
  "Env \<Rightarrow> World \<Rightarrow> MulterFile \<Rightarrow> int \<Rightarrow> World \<times> (error + SessionFile)" where
  "saveUploadedFile env w file now =
     (let fid = uuid env (uuidCount w);
          w1 = w\<lparr>uuidCount := Suc (uuidCount w)\<rparr>
      in if multer_path file = [] \<or> \<not> existsSync w1 (multer_path file)
         then (w1, Inl (Error ''Archivo no encontrado o no fue guardado correctamente por multer''))
         else
           (case map_of (disk w1) (multer_path file) of
              None \<Rightarrow> (w1, Inl (Error ''Archivo no encontrado o no fue guardado correctamente por multer''))
            | Some st \<Rightarrow>
                (w1, Inr \<lparr>fileId = fid,
                          originalName = originalname file,
                          filename = basename (multer_path file),
                          path = multer_path file,
                          size_bytes = (if multer_size file \<noteq> 0 then multer_size file
                                        else length (bytes st)),
                          uploadedAt = now,
                          status = ''uploaded''\<rparr>)))"

section \<open>ChatController: pricing context of a session\<close>

datatype Response =
    Json nat json
  | Next error

definition pricingIndicators :: "string list" where
  "pricingIndicators = [''version:'', ''features:'', ''plans:'']"

definition isPricingYamlFile :: "World \<Rightarrow> string \<Rightarrow> string \<Rightarrow> bool" where
  "isPricingYamlFile w originalName' filePath =
     (let fileExtension = toLowerCase originalName'
      in if \<not> endsWith fileExtension ''.yaml'' \<and> \<not> endsWith fileExtension ''.yml'' then False
         else
           (case readFileSync w filePath of
              Inl e \<Rightarrow> False
            | Inr content' \<Rightarrow>
                (let firstLines = toLowerCase (join [newline] (take 50 (split newline content')));
                     foundIndicators = filter (\<lambda>indicator. includes_str firstLines indicator) pricingIndicators
                 in length foundIndicators \<ge> 3)))"

definition getPricingContextInfo :: "World \<Rightarrow> string \<Rightarrow> int \<Rightarrow> Response" where
  "getPricingContextInfo w sid now =
     (case getSession w sid of
        None \<Rightarrow> Next (AppError ''Session not found'' 404)
      | Some session \<Rightarrow>
          (let hasContext = (pricingContext session \<noteq> None);
               fileName' = (case pricingContext session of
                              None \<Rightarrow> JNull
                            | Some pc \<Rightarrow> if fileName pc \<noteq> [] then JStr (fileName pc) else JNull);
               contentLength = (case pricingContext session of
                                  None \<Rightarrow> 0
                                | Some pc \<Rightarrow> if content pc \<noteq> [] then int (jsLength (content pc)) else 0)
           in Json 200 (JObj [(''success'', JBool True),
                              (''data'', JObj [(''sessionId'', JStr sid),
                                               (''hasContext'', JBool hasContext),
                                               (''fileName'', fileName'),
                                               (''contentLength'', JNum contentLength),
                                               (''retrievedAt'', JNum now)])])))"

text \<open>\<^verbatim>\<open>session.files.find(f => f.id === fileId)\<close>: strict equality with a request value
  holds for a string only.\<close>

definition findFile :: "SessionFile list \<Rightarrow> json \<Rightarrow> SessionFile option" where
  "findFile fs v = (case v of JStr s \<Rightarrow> find (\<lambda>f. fileId f = s) fs | _ \<Rightarrow> None)"

definition updatePricingContext :: "World \<Rightarrow> string \<Rightarrow> json option \<Rightarrow> int \<Rightarrow> World \<times> Response" where
  "updatePricingContext w sid body_fileId now =
     (case (if falsy body_fileId then None else body_fileId) of
        None \<Rightarrow> (w, Next (AppError ''FileId is required'' 400))
      | Some fileId' \<Rightarrow>
        (case getSession w sid of
           None \<Rightarrow> (w, Next (AppError ''Session not found'' 404))
         | Some session \<Rightarrow>
             (case findFile (files session) fileId' of
                None \<Rightarrow> (w, Next (AppError ''File not found in the session'' 404))
              | Some sessionFile \<Rightarrow>
                  if \<not> existsSync w (path sessionFile)
                  then (w, Next (AppError ''File not found in the system'' 404))
                  else
                    (case readFileSync w (path sessionFile) of
                       Inl e \<Rightarrow> (w, Next (AppError ''Error updating pricing context'' 500))
                     | Inr pricingContent \<Rightarrow>
                         (setSession w sid
                            (session\<lparr>pricingContext :=
                                        Some \<lparr>content = pricingContent,
                                              fileName = originalName sessionFile,
                                              contextFileId = fileId sessionFile\<rparr>,
                                      lastActivity := now\<rparr>),
                          Json 200 (JObj [(''success'', JBool True),
                                          (''message'', JStr (''Pricing context updated with file: '' @ originalName sessionFile)),
                                          (''data'', JObj [(''sessionId'', JStr sid),
                                                           (''fileId'', fileId'),
                                                           (''fileName'', JStr (originalName sessionFile)),
                                                           (''updatedAt'', JNum now)])]))))))"

definition clearPricingContext :: "World \<Rightarrow> string \<Rightarrow> int \<Rightarrow> World \<times> Response" where
  "clearPricingContext w sid now =
     (case getSession w sid of
        None \<Rightarrow> (w, Next (AppError ''Session not found'' 404))
      | Some session \<Rightarrow>
          (setSession w sid (session\<lparr>pricingContext := None, lastActivity := now\<rparr>),
           Json 200 (JObj [(''success'', JBool True),
                           (''message'', JStr ''Pricing context cleared successfully''),
                           (''data'', JObj [(''sessionId'', JStr sid),
                                            (''clearedAt'', JNum now)])])))"

text \<open>
  \<^verbatim>\<open>uploadFile\<close>: the route runs multer first, so when the controller is entered the
  uploaded bytes are already on disk at \<^verbatim>\<open>req.file.path\<close>. When the heuristic fires, the
  upload reconfigures the controller's \<^verbatim>\<open>GeminiService\<close>; the session's own
  \<^verbatim>\<open>pricingContext\<close> is not assigned here.
\<close>

definition uploadFile ::
  "Env \<Rightarrow> World \<Rightarrow> string \<Rightarrow> MulterFile option \<Rightarrow> int \<Rightarrow> World \<times> Response" where
  "uploadFile env w sid reqFile now =
     (case reqFile of
        None \<Rightarrow> (w, Next (AppError ''No file was provided'' 400))
      | Some file \<Rightarrow>
          (case getSession w sid of
             None \<Rightarrow>
               ((if multer_path file \<noteq> [] \<and> existsSync w (multer_path file)
                 then (case unlinkSync env w (multer_path file) of
                         Inl unlinkError \<Rightarrow> w
                       | Inr w1 \<Rightarrow> w1)
                 else w),
                Next (AppError ''Session not found'' 404))
           | Some session \<Rightarrow>
               (case saveUploadedFile env w file now of
                  (w1, Inl fileError) \<Rightarrow>
                    (w1, Next (AppError (''Error processing file: '' @ message_of fileError) 500))
                | (w1, Inr savedFile) \<Rightarrow>
                    (let sessionFile =
                           \<lparr>fileId = fileId savedFile,
                            originalName = originalname file,
                            filename = filename savedFile,
                            path = path savedFile,
                            size_bytes = (if multer_size file \<noteq> 0 then multer_size file
                                          else (case map_of (disk w1) (path savedFile) of
                                                  None \<Rightarrow> 0
                                                | Some st \<Rightarrow> length (bytes st))),
                            uploadedAt = now,
                            status = ''uploaded''\<rparr>;
                         w2 = setSession w1 sid
                                (session\<lparr>files := files session @ [sessionFile], lastActivity := now\<rparr>);
                         w3 = (if isPricingYamlFile w2 (originalname file) (path savedFile)
                               then (case readFileSync w2 (path savedFile) of
                                       Inl contextError \<Rightarrow> w2
                                     | Inr pricingContent \<Rightarrow>
                                         w2\<lparr>geminiService :=
                                               gemini_updatePricingContext (geminiService w2)
                                                 pricingContent (Some (originalname file))\<rparr>)
                               else w2)
                     in (w3,
                         Json 201 (JObj [(''success'', JBool True),
                                         (''data'', JObj [(''sessionId'', JStr (sessionId session)),
                                                          (''fileId'', JStr (fileId savedFile)),
                                                          (''originalName'', JStr (originalname file)),
                                                          (''size'', JNum (int (size_bytes sessionFile))),
                                                          (''uploadedAt'', JNum now),
                                                          (''activeJobsCount'', JNum (int (length (activeJobs session)))),
                                                          (''message'', JStr ''File uploaded successfully'')])]))))))"

section \<open>ChatController: the session reaper\<close>

text \<open>\<^verbatim>\<open>FileManager.deleteFile\<close>: unlink the path when it exists; a failing unlink is
  rethrown as \<open>Failed to delete file\<close>.\<close>

definition deleteFile :: "Env \<Rightarrow> World \<Rightarrow> string \<Rightarrow> error + World" where
  "deleteFile env w p =
     (if existsSync w p
      then (case unlinkSync env w p of
              Inl e \<Rightarrow> Inl (Error (''Failed to delete file: Error: '' @ message_of e))
            | Inr w1 \<Rightarrow> Inr w1)
      else Inr w)"

text \<open>The inner loop of the sweep: a file that cannot be deleted is logged and skipped.\<close>

fun deleteFiles :: "Env \<Rightarrow> World \<Rightarrow> SessionFile list \<Rightarrow> World" where
  "deleteFiles env w [] = w"
| "deleteFiles env w (f # fs) =
     deleteFiles env (case deleteFile env w (path f) of Inl e \<Rightarrow> w | Inr w1 \<Rightarrow> w1) fs"

definition inactiveThreshold :: int where
  "inactiveThreshold = 24 * 60 * 60 * 1000"

text \<open>The first loop of \<^verbatim>\<open>cleanupInactiveSessions\<close>: over the entries of the controller's
  session map, deleting the files of each inactive session and collecting its identifier.\<close>

fun scanSessions ::
  "Env \<Rightarrow> int \<Rightarrow> (string \<times> ChatSession) list \<Rightarrow> World \<Rightarrow> string list \<Rightarrow> World \<times> string list" where
  "scanSessions env now [] w sessionsToDelete = (w, sessionsToDelete)"
| "scanSessions env now ((sid, session) # rest) w sessionsToDelete =
     (let inactiveTime = now - lastActivity session
      in if inactiveTime > inactiveThreshold
         then scanSessions env now rest (deleteFiles env w (files session)) (sessionsToDelete @ [sid])
         else scanSessions env now rest w sessionsToDelete)"

text \<open>The second loop: \<^verbatim>\<open>this.sessions.delete(sessionId)\<close> for each collected identifier.\<close>

fun deleteSessions :: "(string \<times> ChatSession) list \<Rightarrow> string list \<Rightarrow> (string \<times> ChatSession) list" where
  "deleteSessions m [] = m"
| "deleteSessions m (sid # sids) = deleteSessions (AList.delete sid m) sids"

text \<open>\<^verbatim>\<open>cleanupInactiveSessions\<close> is a method: it sweeps the session map of the controller
  it is called on.\<close>

datatype Controller = RoutesController | SchedulerController

definition controllerSessions :: "Controller \<Rightarrow> World \<Rightarrow> (string \<times> ChatSession) list" where
  "controllerSessions c w = (case c of RoutesController \<Rightarrow> sessions w | SchedulerController \<Rightarrow> schedulerSessions w)"

definition setControllerSessions :: "Controller \<Rightarrow> World \<Rightarrow> (string \<times> ChatSession) list \<Rightarrow> World" where
  "setControllerSessions c w m =
     (case c of RoutesController \<Rightarrow> w\<lparr>sessions := m\<rparr> | SchedulerController \<Rightarrow> w\<lparr>schedulerSessions := m\<rparr>)"

definition cleanupInactiveSessions :: "Env \<Rightarrow> Controller \<Rightarrow> World \<Rightarrow> int \<Rightarrow> World" where
  "cleanupInactiveSessions env c w now =
     (case scanSessions env now (controllerSessions c w) w [] of
        (w1, sessionsToDelete) \<Rightarrow>
          setControllerSessions c w1 (deleteSessions (controllerSessions c w1) sessionsToDelete))"

text \<open>\<^verbatim>\<open>SchedulerService.startSessionCleanup\<close>: every hour the scheduler calls
  \<^verbatim>\<open>cleanupInactiveSessions\<close> on the controller it was constructed with.\<close>

definition scheduledSessionCleanup :: "Env \<Rightarrow> World \<Rightarrow> int \<Rightarrow> World" where
  "scheduledSessionCleanup env w now = cleanupInactiveSessions env SchedulerController w now"

section \<open>Template strings\<close>

definition digit :: "nat \<Rightarrow> char" where
  "digit d = char_of (48 + d)"

fun showNat :: "nat \<Rightarrow> string" where
  "showNat n = (if n < 10 then [digit n] else showNat (n div 10) @ [digit (n mod 10)])"

definition showInt :: "int \<Rightarrow> string" where
  "showInt i = (if i < 0 then CHR ''-'' # showNat (nat (- i)) else showNat (nat i))"

text \<open>What a template string \<^verbatim>\<open>`${v}`\<close> inserts for a value.\<close>

fun toStr :: "json \<Rightarrow> string" where
  "toStr JNull = ''null''"
| "toStr (JBool b) = (if b then ''true'' else ''false'')"
| "toStr (JNum n) = showInt n"
| "toStr (JStr s) = s"
| "toStr (JArr xs) = join '','' (map (\<lambda>x. if x = JNull then [] else toStr x) xs)"
| "toStr (JObj kvs) = ''[object Object]''"

definition toStrOpt :: "json option \<Rightarrow> string" where
  "toStrOpt v = (case v of None \<Rightarrow> ''undefined'' | Some j \<Rightarrow> toStr j)"

section \<open>FileManager: transformation outputs and validation\<close>

text \<open>
  \<^verbatim>\<open>path.join(this.uploadsDir, name)\<close> with \<^verbatim>\<open>uploadsDir = './uploads'\<close>: the two are
  joined with a slash and the result is normalised as a relative path. Empty and \<open>.\<close>
  segments are dropped, a \<open>..\<close> segment removes the segment before it (or stays, when
  there is none to remove), and a trailing slash is kept.
\<close>

fun normalizeSegments :: "string list \<Rightarrow> string list \<Rightarrow> string list" where
  "normalizeSegments res [] = res"
| "normalizeSegments res (seg # segs) =
     (if seg = [] \<or> seg = ''.'' then normalizeSegments res segs
      else if seg = ''..''
      then (if res \<noteq> [] \<and> last res \<noteq> ''..''
            then normalizeSegments (butlast res) segs
            else normalizeSegments (res @ [''..'']) segs)
      else normalizeSegments (res @ [seg]) segs)"

definition pathNormalize :: "string \<Rightarrow> string" where
  "pathNormalize p =
     (let r = join ''/'' (normalizeSegments [] (split (CHR ''/'') p))
      in if r = [] then (if endsWith p ''/'' then ''./'' else ''.'')
         else if endsWith p ''/'' then r @ ''/'' else r)"

definition uploadsDir :: string where
  "uploadsDir = ''./uploads''"

definition uploadsPath :: "string \<Rightarrow> string" where
  "uploadsPath fileName' = pathNormalize (uploadsDir @ ''/'' @ fileName')"

text \<open>The identifier is drawn first; the write can throw; \<^verbatim>\<open>new URL(originalUrl)\<close> in the
  record, built after the file is written, can throw too.\<close>

definition saveTransformationResult ::
  "Env \<Rightarrow> World \<Rightarrow> string \<Rightarrow> string \<Rightarrow> string \<Rightarrow> int \<Rightarrow> World \<times> (error + SessionFile)" where
  "saveTransformationResult env w taskId yaml originalUrl now =
     (let fid = uuid env (uuidCount w);
          w1 = w\<lparr>uuidCount := Suc (uuidCount w)\<rparr>;
          fileName' = ''transformation_'' @ taskId @ ''_'' @ fid @ ''.yaml'';
          filePath = uploadsPath fileName'
      in (case writeFileSync env w1 filePath yaml now of
            Inl writeError \<Rightarrow> (w1, Inl writeError)
          | Inr w2 \<Rightarrow>
              (case urlHostname env originalUrl of
                 None \<Rightarrow> (w2, Inl (Error ''Invalid URL''))
               | Some hostname \<Rightarrow>
                   (w2, Inr \<lparr>fileId = fid,
                             originalName = ''pricing_from_'' @ hostname @ ''.yaml'',
                             filename = fileName',
                             path = filePath,
                             size_bytes = length yaml,
                             uploadedAt = now,
                             status = ''uploaded''\<rparr>))))"

record Validation =
  isValid :: bool
  validation_error :: "string option"

definition hasKey :: "string \<Rightarrow> json \<Rightarrow> bool" where
  "hasKey k v = (case v of JObj kvs \<Rightarrow> k \<in> set (map fst kvs) | _ \<Rightarrow> False)"

definition isObject :: "json \<Rightarrow> bool" where
  "isObject v = (case v of JNull \<Rightarrow> True | JArr xs \<Rightarrow> True | JObj kvs \<Rightarrow> True | _ \<Rightarrow> False)"

definition validateYamlFile :: "Env \<Rightarrow> World \<Rightarrow> string \<Rightarrow> Validation" where
  "validateYamlFile env w filePath =
     (case readFileSync w filePath of
        Inl e \<Rightarrow> \<lparr>isValid = False, validation_error = Some (message_of e)\<rparr>
      | Inr content' \<Rightarrow>
          (case yamlLoad env content' of
             Inl e \<Rightarrow> \<lparr>isValid = False, validation_error = Some (message_of e)\<rparr>
           | Inr parsed \<Rightarrow>
               if \<not> isObject parsed \<or> \<not> truthy parsed
               then \<lparr>isValid = False, validation_error = Some ''Invalid YAML structure''\<rparr>
               else
                 (case find (\<lambda>field'. \<not> hasKey field' parsed) [''saasName'', ''plans''] of
                    Some field' \<Rightarrow>
                      \<lparr>isValid = False, validation_error = Some (''Missing required field: '' @ field')\<rparr>
                  | None \<Rightarrow> \<lparr>isValid = True, validation_error = None\<rparr>)))"

text \<open>\<^verbatim>\<open>fs.readdirSync(uploadsDir)\<close>: the names directly inside the uploads directory, in the
  order of the file system.\<close>

definition readdirUploads :: "World \<Rightarrow> string list" where
  "readdirUploads w =
     List.map_filter
       (\<lambda>(p, f). if startsWith p ''uploads/'' \<and> CHR ''/'' \<notin> set (drop 8 p) \<and> drop 8 p \<noteq> []
                 then Some (drop 8 p) else None)
       (disk w)"

text \<open>\<^verbatim>\<open>s.replace(pat, rep)\<close> with a string pattern: the first occurrence only.\<close>

fun replaceFirst :: "string \<Rightarrow> string \<Rightarrow> string \<Rightarrow> string" where
  "replaceFirst pat rep [] = (if pat = [] then rep else [])"
| "replaceFirst pat rep (x # xs) =
     (if prefix pat (x # xs) then rep @ drop (length pat) (x # xs)
      else x # replaceFirst pat rep xs)"

definition transformationFileOf :: "World \<Rightarrow> string \<Rightarrow> SessionFile" where
  "transformationFileOf w file =
     (let filePath = uploadsPath file;
          nameParts = split (CHR ''_'') file;
          fid = (if 2 < length nameParts \<and> nameParts ! 2 \<noteq> []
                 then replaceFirst ''.yaml'' [] (nameParts ! 2) else ''unknown'')
      in \<lparr>fileId = fid,
          originalName = file,
          filename = file,
          path = filePath,
          size_bytes = (case map_of (disk w) filePath of None \<Rightarrow> 0 | Some st \<Rightarrow> length (bytes st)),
          uploadedAt = (case map_of (disk w) filePath of None \<Rightarrow> 0 | Some st \<Rightarrow> mtime st),
          status = ''uploaded''\<rparr>)"

definition getTransformationFiles :: "World \<Rightarrow> SessionFile list" where
  "getTransformationFiles w =
     sort_key (\<lambda>f. - uploadedAt f)
       (map (transformationFileOf w)
          (filter (\<lambda>file. startsWith file ''transformation_'') (readdirUploads w)))"


section \<open>ToolOrchestrationService\<close>

text \<open>
  The handlers below are those of the \<^verbatim>\<open>ToolOrchestrationService\<close> owned by the controller's
  \<^verbatim>\<open>GeminiService\<close>, the instance that executes the tool calls of \<^verbatim>\<open>generateResponse\<close>:
  its \<^verbatim>\<open>taskUrlMap\<close> is \<open>taskUrlMap (geminiService w)\<close>. A handler returns a result object
  (\<open>Inr\<close>) or throws (\<open>Inl\<close>). A failure outcome is the object
  \<^verbatim>\<open>{error: true, message}\<close>.
\<close>

definition failure :: "string \<Rightarrow> json" where
  "failure m = JObj [(''error'', JBool True), (''message'', JStr m)]"

text \<open>\<^verbatim>\<open>new Map(session.files.map(file => [file.id, file]))\<close> and its \<^verbatim>\<open>get\<close>, which finds
  nothing for a key that is not a string.\<close>

definition filesMap :: "SessionFile list \<Rightarrow> (string \<times> SessionFile) list" where
  "filesMap fs = fold (\<lambda>f m. AList.update (fileId f) f m) fs []"

definition mapGet :: "(string \<times> 'a) list \<Rightarrow> json \<Rightarrow> 'a option" where
  "mapGet m k = (case k of JStr s \<Rightarrow> map_of m s | _ \<Rightarrow> None)"

definition fileJson :: "SessionFile \<Rightarrow> json" where
  "fileJson f =
     JObj [(''id'', JStr (fileId f)), (''fileId'', JStr (fileId f)),
           (''originalName'', JStr (originalName f)), (''filename'', JStr (filename f)),
           (''path'', JStr (path f)), (''size'', JNum (int (size_bytes f))),
           (''uploadedAt'', JNum (uploadedAt f)), (''status'', JStr (status f))]"

definition getAvailableTransformationFiles :: "World \<Rightarrow> SessionFile list" where
  "getAvailableTransformationFiles w = getTransformationFiles w"

definition handleGetPricingSummary ::
  "Env \<Rightarrow> World \<Rightarrow> (string \<times> json) list \<Rightarrow> (string \<times> SessionFile) list \<Rightarrow> json" where
  "handleGetPricingSummary env w args currentSessionFiles =
     (case (if falsy (map_of args ''pricingFileId'') then None else map_of args ''pricingFileId'') of
        None \<Rightarrow> failure ''Missing required parameter: pricingFileId''
      | Some pricingFileId \<Rightarrow>
          (case (case mapGet currentSessionFiles pricingFileId of
                   Some f \<Rightarrow> Some f
                 | None \<Rightarrow> findFile (getAvailableTransformationFiles w) pricingFileId) of
             None \<Rightarrow>
               failure (''File with ID '' @ toStr pricingFileId @
                        '' not found in current session or transformation files. Please upload a pricing YAML file or complete a transformation first.'')
           | Some sessionFile \<Rightarrow>
               (let filePath = path sessionFile;
                    validation = validateYamlFile env w filePath
                in if \<not> isValid validation
                   then failure (''Invalid YAML file: '' @
                                 (case validation_error validation of None \<Rightarrow> ''undefined'' | Some e \<Rightarrow> e))
                   else
                     (case getSummary env filePath of
                        Inr summary \<Rightarrow>
                          JObj [(''success'', JBool True),
                                (''data'', summary),
                                (''fileName'', JStr (originalName sessionFile)),
                                (''fileSource'', JStr (if mapGet currentSessionFiles pricingFileId \<noteq> None
                                                       then ''session'' else ''transformation'')),
                                (''message'', JStr ''Pricing summary generated successfully'')]
                      | Inl e \<Rightarrow> failure (''Failed to get pricing summary: '' @ message_of e)))))"

definition validOperations :: "string list" where
  "validOperations = [''validate'', ''optimal'', ''subscriptions'', ''filter'']"

definition handleStartPricingAnalysisJob ::
  "Env \<Rightarrow> World \<Rightarrow> (string \<times> json) list \<Rightarrow> (string \<times> SessionFile) list \<Rightarrow> json" where
  "handleStartPricingAnalysisJob env w args currentSessionFiles =
     (if falsy (map_of args ''pricingFileId'') \<or> falsy (map_of args ''operation'') \<or> falsy (map_of args ''solver'')
      then failure ''Missing required parameters: pricingFileId, operation, and solver are required''
      else
        (case (map_of args ''pricingFileId'', map_of args ''operation'', map_of args ''solver'') of
           (Some pricingFileId, Some operation, Some solver) \<Rightarrow>
             (case (case mapGet currentSessionFiles pricingFileId of
                      Some f \<Rightarrow> Some f
                    | None \<Rightarrow> findFile (getAvailableTransformationFiles w) pricingFileId) of
                None \<Rightarrow>
                  failure (''File with ID '' @ toStr pricingFileId @
                           '' not found in current session or transformation files. Please upload a pricing YAML file or complete a transformation first.'')
              | Some sessionFile \<Rightarrow>
                  if operation \<notin> set (map JStr validOperations)
                  then failure (''Invalid operation type. Must be one of: '' @ join '', '' validOperations)
                  else
                    (case startAnalysisJob env (path sessionFile) operation solver
                            (map_of args ''filters'') (map_of args ''objective'')
                            (map_of args ''jobSpecificPayload'') of
                       Inr jobResponse \<Rightarrow>
                         JObj [(''success'', JBool True),
                               (''data'', jobResponse),
                               (''fileName'', JStr (originalName sessionFile)),
                               (''fileSource'', JStr (if mapGet currentSessionFiles pricingFileId \<noteq> None
                                                      then ''session'' else ''transformation'')),
                               (''message'', JStr (''Analysis job started successfully. Job ID: '' @
                                                   toStrOpt (field ''jobId'' jobResponse)))]
                     | Inl e \<Rightarrow> failure (''Failed to start analysis job: '' @ message_of e)))
         | _ \<Rightarrow> failure ''Missing required parameters: pricingFileId, operation, and solver are required''))"

definition handleGetPricingAnalysisJobStatus :: "Env \<Rightarrow> (string \<times> json) list \<Rightarrow> json" where
  "handleGetPricingAnalysisJobStatus env args =
     (case (if falsy (map_of args ''jobId'') then None else map_of args ''jobId'') of
        None \<Rightarrow> failure ''Missing required parameter: jobId''
      | Some jobId' \<Rightarrow>
          (case getJobStatus env jobId' of
             Inr jobStatus' \<Rightarrow>
               JObj [(''success'', JBool True),
                     (''data'', jobStatus'),
                     (''message'', JStr (''Job status retrieved for '' @ toStr jobId'))]
           | Inl e \<Rightarrow> failure (''Failed to get job status: '' @ message_of e)))"

definition transformResponseJson :: "TransformResponse \<Rightarrow> json" where
  "transformResponseJson r =
     JObj [(''task_id'', JStr (task_id r)), (''status'', JStr (start_status r)),
           (''message'', JStr (start_message r))]"

definition handleInitiatePricingPageTransformation ::
  "Env \<Rightarrow> World \<Rightarrow> (string \<times> json) list \<Rightarrow> World \<times> json" where
  "handleInitiatePricingPageTransformation env w args =
     (case (if falsy (map_of args ''url'') then None else map_of args ''url'') of
        None \<Rightarrow> (w, failure ''Missing required parameter: url'')
      | Some url \<Rightarrow>
          if \<not> transformationAPI env
          then (w, failure ''Transformation service is not available. Please contact the administrator.'')
          else if urlHostname env (toStr url) = None
          then (w, failure ''Invalid URL format. Please provide a valid HTTP/HTTPS URL.'')
          else
            (case startTransformation env url (map_of args ''model'') (map_of args ''max_tries'') of
               Inr transformResponse \<Rightarrow>
                 (w\<lparr>geminiService := (geminiService w)
                       \<lparr>taskUrlMap := AList.update (task_id transformResponse) (toStr url)
                                        (taskUrlMap (geminiService w))\<rparr>\<rparr>,
                  JObj [(''success'', JBool True),
                        (''data'', transformResponseJson transformResponse),
                        (''message'', JStr (''Transformation started for '' @ toStr url @ ''. Task ID: '' @
                                            task_id transformResponse @ ''. This process may take a few minutes.''))])
             | Inl e \<Rightarrow> (w, failure (''Failed to start transformation: '' @ message_of e))))"

text \<open>The properties of a \<^verbatim>\<open>TransformationResult\<close>, in the order it is built; an undefined
  property is left out.\<close>

definition transformationResultProps :: "TransformationResult \<Rightarrow> (string \<times> json) list" where
  "transformationResultProps r =
     [(''status'', JStr (result_status r))] @
     (case yamlContent r of None \<Rightarrow> [] | Some y \<Rightarrow> [(''yamlContent'', JStr y)]) @
     (case result_error r of None \<Rightarrow> [] | Some e \<Rightarrow> [(''error'', e)]) @
     (case canBeUsedForAnalysis r of None \<Rightarrow> [] | Some b \<Rightarrow> [(''canBeUsedForAnalysis'', JBool b)])"

text \<open>Object spread \<^verbatim>\<open>{...a, ...b}\<close>: the properties of \<open>b\<close> are assigned over those of \<open>a\<close>.\<close>

definition spread :: "(string \<times> json) list \<Rightarrow> (string \<times> json) list \<Rightarrow> (string \<times> json) list" where
  "spread a b = fold (\<lambda>(k, v) acc. AList.update k v acc) b a"

definition handleGetTransformationTaskStatus ::
  "Env \<Rightarrow> World \<Rightarrow> (string \<times> json) list \<Rightarrow> int \<Rightarrow> World \<times> json" where
  "handleGetTransformationTaskStatus env w args now =
     (case (if falsy (map_of args ''taskId'') then None else map_of args ''taskId'') of
        None \<Rightarrow> (w, failure ''Missing required parameter: taskId'')
      | Some taskId \<Rightarrow>
          if \<not> transformationAPI env
          then (w, failure ''Transformation service is not available.'')
          else
            (case getTransformationStatus env taskId of
               Inl e \<Rightarrow> (w, failure (''Failed to get transformation status: '' @ message_of e))
             | Inr transformationResult \<Rightarrow>
                 (case (if result_status transformationResult = ''COMPLETED''
                        then (case yamlContent transformationResult of
                                None \<Rightarrow> None
                              | Some y \<Rightarrow> if y = [] then None else Some y)
                        else None) of
                    None \<Rightarrow>
                      (w, JObj [(''success'', JBool True),
                                (''data'', JObj (spread (transformationResultProps transformationResult)
                                                   [(''taskId'', taskId)])),
                                (''message'', JStr (if result_status transformationResult = ''COMPLETED''
                                                    then ''Transformation completed for '' @ toStr taskId
                                                    else ''Transformation task status retrieved for '' @ toStr taskId))])
                  | Some yaml \<Rightarrow>
                      (let originalUrl = (case mapGet (taskUrlMap (geminiService w)) taskId of
                                            None \<Rightarrow> ''transformation-'' @ toStr taskId
                                          | Some u \<Rightarrow> if u = [] then ''transformation-'' @ toStr taskId else u)
                       in case saveTransformationResult env w (toStr taskId) yaml originalUrl now of
                            (w1, Inr savedFileInfo) \<Rightarrow>
                              (let w2 = w1\<lparr>geminiService := (geminiService w1)
                                             \<lparr>taskUrlMap := (case taskId of
                                                               JStr t \<Rightarrow> AList.delete t (taskUrlMap (geminiService w1))
                                                             | _ \<Rightarrow> taskUrlMap (geminiService w1))\<rparr>\<rparr>;
                                   w3 = w2\<lparr>geminiSingleton :=
                                             gemini_updatePricingContext (geminiSingleton w2) yaml
                                               (Some (originalName savedFileInfo))\<rparr>;
                                   additionalInfo =
                                     [(''yamlContentPreview'', JStr (jsPrefix 200 yaml @ ''...'')),
                                      (''yamlSize'', JNum (int (jsLength yaml))),
                                      (''canBeUsedForAnalysis'', JBool True),
                                      (''savedFile'', JObj [(''fileId'', JStr (fileId savedFileInfo)),
                                                            (''fileName'', JStr (originalName savedFileInfo)),
                                                            (''path'', JStr (path savedFileInfo))]),
                                      (''contextAutoUpdated'', JBool True)]
                               in (w3,
                                   JObj [(''success'', JBool True),
                                         (''data'', JObj (spread (spread (transformationResultProps transformationResult)
                                                                     additionalInfo)
                                                            [(''taskId'', taskId)])),
                                         (''message'', JStr (''Transformation completed for '' @ toStr taskId @
                                                             ''. File saved and automatically set as pricing context for this conversation.''))]))
                          | (w1, Inl saveError) \<Rightarrow>
                              (let additionalInfo =
                                     [(''yamlContentPreview'', JStr (jsPrefix 200 yaml @ ''...'')),
                                      (''yamlSize'', JNum (int (jsLength yaml))),
                                      (''canBeUsedForAnalysis'', JBool True),
                                      (''saveError'', JStr (''Failed to save file: '' @ message_of saveError)),
                                      (''contextAutoUpdated'', JBool False)]
                               in (w1,
                                   JObj [(''success'', JBool True),
                                         (''data'', JObj (spread (spread (transformationResultProps transformationResult)
                                                                     additionalInfo)
                                                            [(''taskId'', taskId)])),
                                         (''message'', JStr (''Transformation completed for '' @ toStr taskId))]))))))"

definition handleGetPricingStrategyAdvice :: "(string \<times> json) list \<Rightarrow> error + json" where
  "handleGetPricingStrategyAdvice args =
     (case (if falsy (map_of args ''topic'') then None else map_of args ''topic'') of
        None \<Rightarrow> Inl (Error ''Topic is required for pricing strategy advice'')
      | Some topic \<Rightarrow>
          Inr (JObj [(''success'', JBool True),
                     (''adviceRequested'', JBool True),
                     (''topic'', topic),
                     (''message'', JStr (''Generating pricing strategy advice for topic: '' @ toStr topic @
                                         ''. The AI will provide this directly.''))]))"

definition handleGetAvailableTransformationFiles :: "World \<Rightarrow> json" where
  "handleGetAvailableTransformationFiles w =
     (let transformationFiles = getAvailableTransformationFiles w
      in JObj [(''success'', JBool True),
               (''data'', JObj [(''files'', JArr (map fileJson transformationFiles)),
                                (''count'', JNum (int (length transformationFiles)))]),
               (''message'', JStr (''Found '' @ showNat (length transformationFiles) @
                                   '' transformation file(s) available for analysis''))])"

text \<open>The dispatcher: a \<^verbatim>\<open>switch\<close> on the name whose \<^verbatim>\<open>default\<close> throws; the \<^verbatim>\<open>catch\<close>
  around it logs and rethrows the same error.\<close>

definition toolNames :: "string list" where
  "toolNames = [''getPricingSummary'', ''startPricingAnalysisJob'', ''getPricingAnalysisJobStatus'',
                ''initiatePricingPageTransformation'', ''getTransformationTaskStatus'',
                ''getPricingStrategyAdvice'', ''getAvailableTransformationFiles'']"

definition handleToolCall ::
  "Env \<Rightarrow> World \<Rightarrow> FunctionCall \<Rightarrow> (string \<times> SessionFile) list \<Rightarrow> int \<Rightarrow> World \<times> (error + json)" where
  "handleToolCall env w functionCall' currentSessionFiles now =
     (if fc_name functionCall' = ''getPricingSummary''
      then (w, Inr (handleGetPricingSummary env w (fc_arguments functionCall') currentSessionFiles))
      else if fc_name functionCall' = ''startPricingAnalysisJob''
      then (w, Inr (handleStartPricingAnalysisJob env w (fc_arguments functionCall') currentSessionFiles))
      else if fc_name functionCall' = ''getPricingAnalysisJobStatus''
      then (w, Inr (handleGetPricingAnalysisJobStatus env (fc_arguments functionCall')))
      else if fc_name functionCall' = ''initiatePricingPageTransformation''
      then (case handleInitiatePricingPageTransformation env w (fc_arguments functionCall') of
              (w1, result) \<Rightarrow> (w1, Inr result))
      else if fc_name functionCall' = ''getTransformationTaskStatus''
      then (case handleGetTransformationTaskStatus env w (fc_arguments functionCall') now of
              (w1, result) \<Rightarrow> (w1, Inr result))
      else if fc_name functionCall' = ''getPricingStrategyAdvice''
      then (w, handleGetPricingStrategyAdvice (fc_arguments functionCall'))
      else if fc_name functionCall' = ''getAvailableTransformationFiles''
      then (w, Inr (handleGetAvailableTransformationFiles w))
      else (w, Inl (Error (''Unknown function call: '' @ fc_name functionCall'))))"

fun executeFunctionCalls ::
  "Env \<Rightarrow> World \<Rightarrow> FunctionCall list \<Rightarrow> (string \<times> SessionFile) list \<Rightarrow> int \<Rightarrow> json list
     \<Rightarrow> World \<times> (error + json list)" where
  "executeFunctionCalls env w [] currentSessionFiles now results = (w, Inr results)"
| "executeFunctionCalls env w (funcCall # rest) currentSessionFiles now results =
     (case handleToolCall env w funcCall currentSessionFiles now of
        (w1, Inl e) \<Rightarrow> (w1, Inl e)
      | (w1, Inr result) \<Rightarrow> executeFunctionCalls env w1 rest currentSessionFiles now (results @ [result]))"


section \<open>GeminiService: the two model calls of a turn\<close>

definition convertPart :: "MessagePart \<Rightarrow> error + MessagePart" where
  "convertPart part =
     (case (case text_part part of None \<Rightarrow> None | Some t \<Rightarrow> if t = [] then None else Some t) of
        Some t \<Rightarrow> Inr \<lparr>text_part = Some t, functionCall = None, functionResponse = None\<rparr>
      | None \<Rightarrow>
          (case functionCall part of
             Some fc \<Rightarrow> Inr \<lparr>text_part = None, functionCall = Some fc, functionResponse = None\<rparr>
           | None \<Rightarrow>
               (case functionResponse part of
                  Some fr \<Rightarrow> Inr \<lparr>text_part = None, functionCall = None, functionResponse = Some fr\<rparr>
                | None \<Rightarrow> Inl (Error ''Invalid message part type''))))"

fun convertParts :: "MessagePart list \<Rightarrow> error + MessagePart list" where
  "convertParts [] = Inr []"
| "convertParts (p # ps) =
     (case convertPart p of
        Inl e \<Rightarrow> Inl e
      | Inr q \<Rightarrow> (case convertParts ps of Inl e \<Rightarrow> Inl e | Inr qs \<Rightarrow> Inr (q # qs)))"

fun convertToGeminiContent :: "ChatMessage list \<Rightarrow> error + GeminiContent list" where
  "convertToGeminiContent [] = Inr []"
| "convertToGeminiContent (msg # msgs) =
     (case convertParts (parts msg) of
        Inl e \<Rightarrow> Inl e
      | Inr ps \<Rightarrow>
          (case convertToGeminiContent msgs of
             Inl e \<Rightarrow> Inl e
           | Inr cs \<Rightarrow>
               Inr (\<lparr>content_role = (if role msg = Model then ''model''
                                      else if role msg = Tool then ''function'' else ''user''),
                     content_parts = ps\<rparr> # cs)))"

record Usage =
  promptTokens :: nat
  completionTokens :: nat
  totalTokens :: nat

record GeminiChatResponse =
  response_content :: string
  functionCalls :: "FunctionCall list option"
  usage :: Usage

record SessionContext =
  context_sessionId :: string
  context_files :: "(string \<times> SessionFile) list"
  context_pricingContext :: "PricingContext option"

definition usageOf :: "GenerateContentResponse \<Rightarrow> Usage" where
  "usageOf r =
     \<lparr>promptTokens = (case promptTokenCount r of None \<Rightarrow> 0 | Some n \<Rightarrow> n),
      completionTokens = (case candidatesTokenCount r of None \<Rightarrow> 0 | Some n \<Rightarrow> n),
      totalTokens = (case totalTokenCount r of None \<Rightarrow> 0 | Some n \<Rightarrow> n)\<rparr>"

definition sendToolResultBackToGemini ::
  "Env \<Rightarrow> FunctionCall \<Rightarrow> json \<Rightarrow> ChatMessage list \<Rightarrow> SystemPrompt \<Rightarrow> error + string" where
  "sendToolResultBackToGemini env functionCall' toolResult chatHistory modelToUse =
     (let messagesWithToolResponse =
            chatHistory @
            [\<lparr>role = Model,
              parts = [\<lparr>text_part = None,
                        functionCall = Some \<lparr>fc_name = fc_name functionCall',
                                              fc_arguments = fc_arguments functionCall'\<rparr>,
                        functionResponse = None\<rparr>]\<rparr>,
             \<lparr>role = Tool,
              parts = [\<lparr>text_part = None,
                        functionCall = None,
                        functionResponse = Some \<lparr>fr_name = fc_name functionCall',
                                                  fr_response = JObj [(''result'', toolResult)]\<rparr>\<rparr>]\<rparr>]
      in case convertToGeminiContent messagesWithToolResponse of
           Inl e \<Rightarrow> Inl (Error (''Failed to process tool result: '' @ message_of e))
         | Inr conversationHistoryForFinalResponse \<Rightarrow>
             (case generateContent env modelToUse conversationHistoryForFinalResponse of
                Inl e \<Rightarrow> Inl (Error (''Failed to process tool result: '' @ message_of e))
              | Inr result \<Rightarrow> Inr (response_text result)))"

text \<open>\<^verbatim>\<open>toolResult[0]\<close> below is the result of the one call executed (the empty case, where
  JavaScript reads \<^verbatim>\<open>undefined\<close>, does not arise).\<close>

text \<open>The model a call uses: \<^verbatim>\<open>this.model\<close>, unless the session context carries a pricing
  context, for which a temporary model is created.\<close>

definition modelToUseFor :: "World \<Rightarrow> SessionContext option \<Rightarrow> SystemPrompt" where
  "modelToUseFor w sessionContext =
     (case sessionContext of
        None \<Rightarrow> model (geminiService w)
      | Some ctx \<Rightarrow>
          (case context_pricingContext ctx of
             None \<Rightarrow> model (geminiService w)
           | Some pc \<Rightarrow> createModelWithSessionContext (Some (content pc)) (Some (fileName pc))))"

definition generateResponse ::
  "Env \<Rightarrow> World \<Rightarrow> ChatMessage list \<Rightarrow> SessionContext option \<Rightarrow> int \<Rightarrow> World \<times> (error + GeminiChatResponse)" where
  "generateResponse env w chatHistory sessionContext now =
     (case convertToGeminiContent chatHistory of
        Inl e \<Rightarrow> (w, Inl (Error (''Failed to generate response: '' @ message_of e)))
      | Inr conversationHistory \<Rightarrow>
          (let modelToUse = modelToUseFor w sessionContext
           in case generateContent env modelToUse conversationHistory of
                Inl e \<Rightarrow> (w, Inl (Error (''Failed to generate response: '' @ message_of e)))
              | Inr response \<Rightarrow>
                  (case (case response_functionCalls response of
                           None \<Rightarrow> None
                         | Some [] \<Rightarrow> None
                         | Some (fc # others) \<Rightarrow> Some fc) of
                     Some fc \<Rightarrow>
                       (let functionCallToExecute =
                              \<lparr>fc_name = fst fc,
                               fc_arguments = (case snd fc of None \<Rightarrow> [] | Some a \<Rightarrow> a)\<rparr>;
                            contextFiles = (case sessionContext of
                                              None \<Rightarrow> []
                                            | Some ctx \<Rightarrow> context_files ctx)
                        in case executeFunctionCalls env w [functionCallToExecute] contextFiles now [] of
                             (w1, Inl e) \<Rightarrow>
                               (w1, Inl (Error (''Failed to generate response: '' @ message_of e)))
                           | (w1, Inr toolResult) \<Rightarrow>
                               (let actualToolResult = (case toolResult of [] \<Rightarrow> JNull | r # rs \<Rightarrow> r)
                                in case sendToolResultBackToGemini env functionCallToExecute
                                          actualToolResult chatHistory modelToUse of
                                     Inl e \<Rightarrow>
                                       (w1, Inl (Error (''Failed to generate response: '' @ message_of e)))
                                   | Inr finalResponseText \<Rightarrow>
                                       (w1, Inr \<lparr>response_content = finalResponseText,
                                                 functionCalls = Some [functionCallToExecute],
                                                 usage = usageOf response\<rparr>)))
                   | None \<Rightarrow>
                       (w, Inr \<lparr>response_content = response_text response,
                                functionCalls = None,
                                usage = usageOf response\<rparr>))))"

section \<open>ChatController: sessions and turns\<close>

definition createSession :: "World \<Rightarrow> string \<Rightarrow> int \<Rightarrow> World \<times> Response" where
  "createSession w sid now =
     (let session = \<lparr>sessionId = sid, createdAt = now, lastActivity = now, messages = [],
                     files = [], jobs = [], activeJobs = [], transformationTasks = [],
                     pricingContext = None\<rparr>;
          w1 = setSession w sid session;
          w2 = w1\<lparr>geminiService := gemini_clearPricingContext (geminiService w1)\<rparr>
      in (w2, Json 200 (JObj [(''success'', JBool True),
                              (''data'', JObj [(''sessionId'', JStr sid), (''createdAt'', JNum now)])])))"

record UploadedFileNote =
  note_originalName :: string
  note_fileId :: string

definition functionCallJson :: "FunctionCall \<Rightarrow> json" where
  "functionCallJson fc = JObj [(''name'', JStr (fc_name fc)), (''arguments'', JObj (fc_arguments fc))]"

definition usageJson :: "Usage \<Rightarrow> json" where
  "usageJson u = JObj [(''promptTokens'', JNum (int (promptTokens u))),
                       (''completionTokens'', JNum (int (completionTokens u))),
                       (''totalTokens'', JNum (int (totalTokens u)))]"

definition textPart :: "string \<Rightarrow> MessagePart" where
  "textPart t = \<lparr>text_part = Some t, functionCall = None, functionResponse = None\<rparr>"

definition callPart :: "FunctionCall \<Rightarrow> MessagePart" where
  "callPart fc = \<lparr>text_part = None, functionCall = Some fc, functionResponse = None\<rparr>"

text \<open>
  \<^verbatim>\<open>sendMessage\<close>. The user message is pushed to the session before the model is called;
  \<^verbatim>\<open>generateResponse\<close> works on a copy of the log and runs the tool and the second model
  call on its own temporary history; afterwards at most one model message is pushed.
  When \<^verbatim>\<open>generateResponse\<close> throws, the handler answers 500 and pushes nothing more.
\<close>

definition sendMessage ::
  "Env \<Rightarrow> World \<Rightarrow> string \<Rightarrow> string option \<Rightarrow> UploadedFileNote option \<Rightarrow> int \<Rightarrow> World \<times> Response" where
  "sendMessage env w sid body_message context_uploadedFile now =
     (case (if sid = [] then None
            else (case body_message of None \<Rightarrow> None | Some m \<Rightarrow> if m = [] then None else Some m)) of
        None \<Rightarrow>
          (w, Json 400 (JObj [(''success'', JBool False),
                              (''error'', JStr ''Session ID and message are required'')]))
      | Some message \<Rightarrow>
          (case getSession w sid of
             None \<Rightarrow>
               (w, Json 404 (JObj [(''success'', JBool False), (''error'', JStr ''Session not found'')]))
           | Some session \<Rightarrow>
               (let userMessageText =
                      (case context_uploadedFile of
                         None \<Rightarrow> message
                       | Some uploadedFile \<Rightarrow>
                           message @ [newline, newline] @ ''[Context: User has uploaded a file '' @ [dquote] @
                           note_originalName uploadedFile @ [dquote] @ '' with ID '' @ [dquote] @
                           note_fileId uploadedFile @ [dquote] @
                           '' that is available for pricing analysis.]'');
                    userMessage = \<lparr>role = User, parts = [textPart userMessageText]\<rparr>;
                    session1 = session\<lparr>lastActivity := now, messages := messages session @ [userMessage]\<rparr>;
                    w1 = setSession w sid session1;
                    chatHistory = messages session1;
                    sessionContext = \<lparr>context_sessionId = sessionId session1,
                                      context_files = filesMap (files session1),
                                      context_pricingContext = pricingContext session1\<rparr>
                in case generateResponse env w1 chatHistory (Some sessionContext) now of
                     (w2, Inl e) \<Rightarrow>
                       (w2, Json 500 (JObj [(''success'', JBool False),
                                            (''error'', JStr ''Failed to send message due to an internal error'')]))
                   | (w2, Inr geminiResponse) \<Rightarrow>
                       (let w3 =
                              (if response_content geminiResponse \<noteq> [] \<or> functionCalls geminiResponse \<noteq> None
                               then
                                 (let modelMessage =
                                        \<lparr>role = Model,
                                         parts = (if response_content geminiResponse \<noteq> []
                                                  then [textPart (response_content geminiResponse)] else []) @
                                                 (case functionCalls geminiResponse of
                                                    None \<Rightarrow> []
                                                  | Some fcs \<Rightarrow> map callPart fcs)\<rparr>
                                  in setSession w2 sid (session1\<lparr>messages := messages session1 @ [modelMessage]\<rparr>))
                               else w2)
                        in (w3,
                            Json 200 (JObj ([(''success'', JBool True),
                                             (''data'', JObj ([(''content'', JStr (response_content geminiResponse))] @
                                                              (case functionCalls geminiResponse of
                                                                 None \<Rightarrow> []
                                                               | Some fcs \<Rightarrow> [(''functionCalls'', JArr (map functionCallJson fcs))]) @
                                                              [(''usage'', usageJson (usage geminiResponse))]))])))))))"


section \<open>Reading a reply; a small concrete system\<close>

text \<open>The property \<open>k\<close> of the \<^verbatim>\<open>data\<close> object of a JSON reply.\<close>

definition reported :: "string \<Rightarrow> Response \<Rightarrow> json option" where
  "reported k r =
     (case r of
        Json code body \<Rightarrow> (case field ''data'' body of None \<Rightarrow> None | Some d \<Rightarrow> field k d)
      | Next e \<Rightarrow> None)"

definition sessionLog :: "World \<Rightarrow> string \<Rightarrow> ChatMessage list" where
  "sessionLog w sid = (case getSession w sid of None \<Rightarrow> [] | Some s \<Rightarrow> messages s)"

text \<open>Two fresh sessions of the routes' controller, two uploaded files on disk, and
  collaborators that answer at once. Of the directories a write could go to, only
  \<^verbatim>\<open>uploads\<close> exists.\<close>

definition demoGemini :: GeminiService where
  "demoGemini = \<lparr>currentPricingContent = None, currentPricingFileName = None,
                  model = NoPricingSection, taskUrlMap = []\<rparr>"

definition demoSession :: "string \<Rightarrow> ChatSession" where
  "demoSession sid = \<lparr>sessionId = sid, createdAt = 0, lastActivity = 0, messages = [],
                       files = [], jobs = [], activeJobs = [], transformationTasks = [],
                       pricingContext = None\<rparr>"

definition demoYaml :: string where
  "demoYaml = ''saasName: Demo'' @ [newline] @ ''version: 2.1'' @ [newline] @ ''plans:'' @ [newline] @
              ''  BASIC:'' @ [newline] @ ''    price: 0'' @ [newline]"

definition demoFullYaml :: string where
  "demoFullYaml = ''saasName: Demo'' @ [newline] @ ''version: 2.1'' @ [newline] @ ''features:'' @ [newline] @
                  ''  sso:'' @ [newline] @ ''plans:'' @ [newline] @ ''  BASIC:'' @ [newline]"

definition demoWorld :: World where
  "demoWorld = \<lparr>sessions = [(''A'', demoSession ''A''), (''B'', demoSession ''B'')],
                 schedulerSessions = [],
                 disk = [(''/srv/uploads/file-1.yaml'', \<lparr>bytes = demoYaml, mtime = 0\<rparr>),
                         (''/srv/uploads/file-2.yaml'', \<lparr>bytes = demoFullYaml, mtime = 0\<rparr>)],
                 geminiService = demoGemini,
                 geminiSingleton = demoGemini,
                 uuidCount = 0\<rparr>"

definition demoUpload :: MulterFile where
  "demoUpload = \<lparr>originalname = ''pricing.yaml'', multer_path = ''/srv/uploads/file-1.yaml'', multer_size = 0\<rparr>"

definition demoFullUpload :: MulterFile where
  "demoFullUpload = \<lparr>originalname = ''pricing.yaml'', multer_path = ''/srv/uploads/file-2.yaml'', multer_size = 0\<rparr>"

text \<open>A model that answers with the document of its system instruction, and asks for the
  tool \<open>tool\<close> first when one is given and no tool result is in the conversation yet.\<close>

definition demoModel ::
  "(string \<times> (string \<times> json) list option) option \<Rightarrow> SystemPrompt \<Rightarrow> GeminiContent list
     \<Rightarrow> error + GenerateContentResponse" where
  "demoModel tool prompt history =
     Inr \<lparr>response_functionCalls =
             (case tool of
                None \<Rightarrow> None
              | Some fc \<Rightarrow> if ''function'' \<in> set (map content_role history) then None else Some [fc]),
           response_text = (case prompt of NoPricingSection \<Rightarrow> ''no document'' | PricingSection n c \<Rightarrow> c),
           promptTokenCount = None, candidatesTokenCount = None, totalTokenCount = None\<rparr>"

definition demoEnv :: Env where
  "demoEnv = \<lparr>uuid = (\<lambda>n. ''id-'' @ showNat n),
               yamlLoad = (\<lambda>s. Inr (JObj [(''saasName'', JStr ''Demo''), (''plans'', JObj [])])),
               urlHostname = (\<lambda>u. if startsWith u ''https://'' then Some (drop 8 u) else None),
               getSummary = (\<lambda>p. Inr (JObj [(''numberOfPlans'', JNum 1)])),
               startAnalysisJob = (\<lambda>p operation solver filters objective payload.
                                     Inr (JObj [(''jobId'', JStr ''job-1''), (''status'', JStr ''PENDING'')])),
               getJobStatus = (\<lambda>j. Inr (JObj [(''jobId'', j), (''status'', JStr ''RUNNING'')])),
               transformationAPI = True,
               startTransformation = (\<lambda>url m t. Inr \<lparr>task_id = ''task-1'', start_status = ''PENDING'',
                                                        start_message = ''accepted''\<rparr>),
               getTransformationStatus = (\<lambda>t. Inr \<lparr>result_status = ''COMPLETED'',
                                                      yamlContent = Some demoFullYaml,
                                                      result_error = None,
                                                      canBeUsedForAnalysis = Some True\<rparr>),
               generateContent = demoModel None,
               fsWriteError =
                 (\<lambda>p. if startsWith p ''uploads/'' \<and> CHR ''/'' \<notin> set (drop 8 p) then None
                      else Some (Error (''ENOENT: no such file or directory, open '' @ quoted p))),
               fsUnlinkError = (\<lambda>p. None)\<rparr>"


section \<open>Notions used in the statements\<close>

text \<open>A session is inactive at \<open>now\<close> when the sweep's test holds for it; \<open>expiredFiles\<close>
  collects the files of the inactive entries of a session list.\<close>

definition expired :: "int \<Rightarrow> ChatSession \<Rightarrow> bool" where
  "expired now s = (now - lastActivity s > inactiveThreshold)"

definition expiredFiles :: "int \<Rightarrow> (string \<times> ChatSession) list \<Rightarrow> SessionFile list" where
  "expiredFiles now xs = concat (map (\<lambda>x. files (snd x)) (filter (\<lambda>x. expired now (snd x)) xs))"




text \<open>The name under which a poll of a completed transformation stores its document.\<close>

definition transformationPath :: "Env \<Rightarrow> World \<Rightarrow> json \<Rightarrow> string" where
  "transformationPath env w taskId =
     uploadsPath (''transformation_'' @ toStr taskId @ ''_'' @ uuid env (uuidCount w) @ ''.yaml'')"

text \<open>The status a tool result reports in its \<^verbatim>\<open>data\<close>.\<close>

definition dataStatus :: "json \<Rightarrow> json option" where
  "dataStatus result = (case field ''data'' result of None \<Rightarrow> None | Some d \<Rightarrow> field ''status'' d)"


text \<open>The concrete system after session \<open>A\<close> has uploaded the full pricing file.\<close>

definition demoWorldWithFile :: World where
  "demoWorldWithFile = fst (uploadFile demoEnv demoWorld ''A'' (Some demoFullUpload) 5)"

text \<open>A session that was last active 25 hours before the sweep, owning one file, next to
  one touched a millisecond before it.\<close>

definition demoStaleWorld :: World where
  "demoStaleWorld =
     \<lparr>sessions = [(''old'', (demoSession ''old'')
                       \<lparr>files := [\<lparr>fileId = ''f1'', originalName = ''pricing.yaml'',
                                    filename = ''file-1.yaml'', path = ''/srv/uploads/file-1.yaml'',
                                    size_bytes = 60, uploadedAt = 0, status = ''uploaded''\<rparr>]\<rparr>),
                   (''live'', (demoSession ''live'')
                       \<lparr>lastActivity := 89999999,
                        files := [\<lparr>fileId = ''f2'', originalName = ''pricing.yaml'',
                                    filename = ''file-2.yaml'', path = ''/srv/uploads/file-2.yaml'',
                                    size_bytes = 61, uploadedAt = 0, status = ''uploaded''\<rparr>]\<rparr>)],
      schedulerSessions = [],
      disk = disk demoWorld,
      geminiService = demoGemini,
      geminiSingleton = demoGemini,
      uuidCount = 2\<rparr>"



text \<open>The session file that \<^verbatim>\<open>uploadFile\<close> attaches for an accepted upload.\<close>

definition uploadedSessionFile :: "Env \<Rightarrow> World \<Rightarrow> MulterFile \<Rightarrow> int \<Rightarrow> SessionFile" where
  "uploadedSessionFile env w upl t =
     \<lparr>fileId = uuid env (uuidCount w),
      originalName = originalname upl,
      filename = basename (multer_path upl),
      path = multer_path upl,
      size_bytes = (if multer_size upl \<noteq> 0 then multer_size upl
                    else (case map_of (disk w) (multer_path upl) of
                            None \<Rightarrow> 0
                          | Some st \<Rightarrow> length (bytes st))),
      uploadedAt = t,
      status = ''uploaded''\<rparr>"

text \<open>The user message of a turn, and the system instruction its model calls receive.\<close>

definition userMessageOf :: "string \<Rightarrow> UploadedFileNote option \<Rightarrow> ChatMessage" where
  "userMessageOf message note =
     \<lparr>role = User,
      parts = [textPart
                 (case note of
                    None \<Rightarrow> message
                  | Some uploadedFile \<Rightarrow>
                      message @ [newline, newline] @ ''[Context: User has uploaded a file '' @ [dquote] @
                      note_originalName uploadedFile @ [dquote] @ '' with ID '' @ [dquote] @
                      note_fileId uploadedFile @ [dquote] @
                      '' that is available for pricing analysis.]'')]\<rparr>"

definition sessionPrompt :: "World \<Rightarrow> ChatSession \<Rightarrow> SystemPrompt" where
  "sessionPrompt w s =
     (case pricingContext s of
        None \<Rightarrow> model (geminiService w)
      | Some pc \<Rightarrow> createModelWithSessionContext (Some (content pc)) (Some (fileName pc)))"

text \<open>Variants of the concrete system: a model that is unreachable, a model that asks for
  one tool, and a transformation that was started and is polled twice.\<close>

definition demoFailEnv :: Env where
  "demoFailEnv = demoEnv\<lparr>generateContent := (\<lambda>prompt history. Inl (Error ''503 Service Unavailable''))\<rparr>"

definition demoAdviceCall :: FunctionCall where
  "demoAdviceCall = \<lparr>fc_name = ''getPricingStrategyAdvice'', fc_arguments = [(''topic'', JStr ''tiers'')]\<rparr>"

definition demoToolEnv :: Env where
  "demoToolEnv = demoEnv\<lparr>generateContent :=
                           demoModel (Some (''getPricingStrategyAdvice'', Some [(''topic'', JStr ''tiers'')]))\<rparr>"

definition demoInitiate :: FunctionCall where
  "demoInitiate = \<lparr>fc_name = ''initiatePricingPageTransformation'',
                    fc_arguments = [(''url'', JStr ''https://example.com'')]\<rparr>"

definition demoPoll :: FunctionCall where
  "demoPoll = \<lparr>fc_name = ''getTransformationTaskStatus'', fc_arguments = [(''taskId'', JStr ''task-1'')]\<rparr>"

definition demoStarted :: World where
  "demoStarted = fst (handleToolCall demoEnv demoWorld demoInitiate [] 1)"

definition demoPolledOnce :: World where
  "demoPolledOnce = fst (handleToolCall demoEnv demoStarted demoPoll [] 2)"

definition demoPolledTwice :: World where
  "demoPolledTwice = fst (handleToolCall demoEnv demoPolledOnce demoPoll [] 3)"


text \<open>The model message a turn appends for a reply of \<^verbatim>\<open>generateResponse\<close>, if any.\<close>

definition modelMessageOf :: "GeminiChatResponse \<Rightarrow> ChatMessage list" where
  "modelMessageOf g =
     (if response_content g \<noteq> [] \<or> functionCalls g \<noteq> None
      then [\<lparr>role = Model,
             parts = (if response_content g \<noteq> [] then [textPart (response_content g)] else []) @
                     (case functionCalls g of None \<Rightarrow> [] | Some fcs \<Rightarrow> map callPart fcs)\<rparr>]
      else [])"

text \<open>The status reported by the outcome of a dispatched call, when there is one.\<close>

definition outcomeStatus :: "error + json \<Rightarrow> json option" where
  "outcomeStatus r = (case r of Inl e \<Rightarrow> None | Inr result \<Rightarrow> dataStatus result)"

text \<open>
  The upload route admits a file only when \<^verbatim>\<open>path.extname(originalname).toLowerCase()\<close> is
  \<^verbatim>\<open>.yaml\<close> or \<^verbatim>\<open>.yml\<close>. \<^verbatim>\<open>path.extname\<close> is the part of the base name from its last dot
  on, and empty when there is no dot or the only dot is the first character.
\<close>

definition lastDot :: "string \<Rightarrow> nat option" where
  "lastDot b = (if CHR ''.'' \<in> set b then Some (length b - 1 - length (takeWhile (\<lambda>c. c \<noteq> CHR ''.'') (rev b))) else None)"

definition extname :: "string \<Rightarrow> string" where
  "extname p =
     (let b = basename p
      in if b = ''..'' then []
         else (case lastDot b of
                 None \<Rightarrow> []
               | Some i \<Rightarrow> if i = 0 then [] else drop i b))"

definition fileFilter :: "string \<Rightarrow> bool" where
  "fileFilter originalname' = (toLowerCase (extname originalname') \<in> set [''.yaml'', ''.yml''])"


text \<open>
  The states the server can be in: both controllers start with an empty session map;
  requests reach the methods of the routes' controller; files arrive on disk from
  outside (multer writes an upload before the controller is entered); and the scheduler
  runs its sweep.
\<close>

inductive reachable :: "Env \<Rightarrow> World \<Rightarrow> bool" for env :: Env where
  started: "sessions w = [] \<Longrightarrow> schedulerSessions w = [] \<Longrightarrow> reachable env w"
| created: "reachable env w \<Longrightarrow> reachable env (fst (createSession w sid t))"
| uploaded: "reachable env w \<Longrightarrow> reachable env (fst (uploadFile env w sid upl t))"
| sent: "reachable env w \<Longrightarrow> reachable env (fst (sendMessage env w sid msg ctx t))"
| context_set: "reachable env w \<Longrightarrow> reachable env (fst (updatePricingContext w sid fid t))"
| context_cleared: "reachable env w \<Longrightarrow> reachable env (fst (clearPricingContext w sid t))"
| stored: "reachable env w \<Longrightarrow> reachable env (w\<lparr>disk := d\<rparr>)"
| swept: "reachable env w \<Longrightarrow> reachable env (scheduledSessionCleanup env w t)"


section \<open>Basic facts about sessions, files and uploads\<close>

lemma getSession_setSession:
  "getSession (setSession w sid s) sid' = (if sid' = sid then Some s else getSession w sid')"
  by (simp add: getSession_def setSession_def update_conv')

lemma getSession_cong: "sessions w' = sessions w \<Longrightarrow> getSession w' sid = getSession w sid"
  by (simp add: getSession_def)

lemma existsSync_Some: "existsSync w p \<Longrightarrow> \<exists>c. readFileSync w p = Inr c"
  by (auto simp: existsSync_def readFileSync_def)

lemma isPricingYamlFile_disk:
  "disk w' = disk w \<Longrightarrow> isPricingYamlFile w' n p = isPricingYamlFile w n p"
  by (simp add: isPricingYamlFile_def readFileSync_def)

lemma sessions_saveUploadedFile: "sessions (fst (saveUploadedFile env w upl t)) = sessions w"
  by (simp add: saveUploadedFile_def Let_def split: option.splits)

lemma find_append_fresh:
  "\<forall>x \<in> set xs. \<not> P x \<Longrightarrow> P y \<Longrightarrow> find P (xs @ [y]) = Some y"
  by (induction xs) simp_all

lemma uploadFile_session:
  assumes "getSession w sid = Some s"
      and "map_of (disk w) (multer_path upl) = Some st"
      and "multer_path upl \<noteq> []"
  shows "getSession (fst (uploadFile env w sid (Some upl) t)) sid
           = Some (s\<lparr>files := files s @ [uploadedSessionFile env w upl t], lastActivity := t\<rparr>)"
  using assms
  by (simp add: uploadFile_def saveUploadedFile_def Let_def existsSync_def uploadedSessionFile_def
        getSession_def setSession_def update_conv' split: sum.splits)

lemma uploadFile_disk:
  assumes "getSession w sid = Some s"
  shows "disk (fst (uploadFile env w sid (Some upl) t)) = disk w"
  using assms
  by (simp add: uploadFile_def saveUploadedFile_def Let_def setSession_def
        split: sum.splits option.splits)

lemma uploadFile_gemini:
  assumes "getSession w sid = Some s"
      and "map_of (disk w) (multer_path upl) = Some st"
      and "multer_path upl \<noteq> []"
      and "isPricingYamlFile w (originalname upl) (multer_path upl)"
  shows "geminiService (fst (uploadFile env w sid (Some upl) t)) =
           gemini_updatePricingContext (geminiService w) (bytes st) (Some (originalname upl))"
proof -
  have "isPricingYamlFile
          (setSession (w\<lparr>uuidCount := Suc (uuidCount w)\<rparr>) sid s') (originalname upl) (multer_path upl)"
    for s'
    using assms(4) isPricingYamlFile_disk [of "setSession (w\<lparr>uuidCount := Suc (uuidCount w)\<rparr>) sid s'" w]
    by (simp add: setSession_def)
  then show ?thesis
    using assms(1-3)
    by (simp add: uploadFile_def saveUploadedFile_def Let_def existsSync_def readFileSync_def
          setSession_def)
qed

lemma uploadFile_pricingContext:
  "map_option pricingContext (getSession (fst (uploadFile env w sid reqFile t)) sid')
     = map_option pricingContext (getSession w sid')"
proof (cases reqFile)
  case None
  then show ?thesis by (simp add: uploadFile_def)
next
  case (Some upl)
  show ?thesis
  proof (cases "getSession w sid")
    case None
    then show ?thesis
      using Some
      by (auto simp: uploadFile_def getSession_def unlinkSync_def
               split: sum.splits if_splits option.splits)
  next
    case (Some session)
    obtain w1 r where sv: "saveUploadedFile env w upl t = (w1, r)"
      by (cases "saveUploadedFile env w upl t")
    have s1: "sessions w1 = sessions w"
      using sessions_saveUploadedFile [of env w upl t] sv by simp
    show ?thesis
    proof (cases r)
      case (Inl e)
      then show ?thesis
        using \<open>reqFile = Some upl\<close> Some sv s1
        by (simp add: uploadFile_def getSession_def)
    next
      case (Inr savedFile)
      have g: "getSession w1 sid' = getSession w sid'"
        using s1 by (rule getSession_cong)
      show ?thesis
        using \<open>reqFile = Some upl\<close> Some sv Inr g
        by (auto simp: uploadFile_def Let_def getSession_setSession getSession_def setSession_def
                 update_conv' split: sum.splits)
    qed
  qed
qed

lemma updatePricingContext_info:
  assumes "getSession w sid = Some s"
      and "findFile (files s) v = Some D" "truthy v" "existsSync w (path D)"
  shows "\<exists>body. snd (updatePricingContext w sid (Some v) t) = Json 200 body"
    and "reported ''hasContext'' (getPricingContextInfo (fst (updatePricingContext w sid (Some v) t)) sid t')
           = Some (JBool True)"
    and "originalName D \<noteq> [] \<Longrightarrow>
         reported ''fileName'' (getPricingContextInfo (fst (updatePricingContext w sid (Some v) t)) sid t')
           = Some (JStr (originalName D))"
proof -
  obtain c where c: "readFileSync w (path D) = Inr c"
    using existsSync_Some [OF assms(4)] by blast
  show "\<exists>body. snd (updatePricingContext w sid (Some v) t) = Json 200 body"
    using assms c by (simp add: updatePricingContext_def falsy_def)
  show "reported ''hasContext'' (getPricingContextInfo (fst (updatePricingContext w sid (Some v) t)) sid t')
           = Some (JBool True)"
    using assms c
    by (simp add: updatePricingContext_def falsy_def getPricingContextInfo_def
          getSession_setSession reported_def)
  show "reported ''fileName'' (getPricingContextInfo (fst (updatePricingContext w sid (Some v) t)) sid t')
           = Some (JStr (originalName D))" if "originalName D \<noteq> []"
    using assms c that
    by (simp add: updatePricingContext_def falsy_def getPricingContextInfo_def
          getSession_setSession reported_def)
qed

lemma clearPricingContext_info:
  assumes "getSession w sid = Some s"
  shows "(\<exists>body. snd (clearPricingContext w sid t) = Json 200 body)
       \<and> reported ''hasContext'' (getPricingContextInfo (fst (clearPricingContext w sid t)) sid t')
              = Some (JBool False)"
  using assms
  by (simp add: clearPricingContext_def getPricingContextInfo_def getSession_setSession reported_def)

lemma fileFilter_nonempty: "fileFilter n \<Longrightarrow> n \<noteq> []"
  by (auto simp: fileFilter_def extname_def basename_def lastDot_def toLowerCase_def)

lemma fileFilter_examples:
  "fileFilter ''pricing.yaml''" "fileFilter ''Plans.YML''" "\<not> fileFilter ''.yaml''" "\<not> fileFilter ''notes.txt''"
  by code_simp+

text \<open>An explicit context update or clear of one session leaves the shared model and
  every other session as they were.\<close>

lemma updatePricingContext_isolated:
  "geminiService (fst (updatePricingContext w a v t)) = geminiService w"
  "b \<noteq> a \<Longrightarrow> getSession (fst (updatePricingContext w a v t)) b = getSession w b"
  by (auto simp: updatePricingContext_def setSession_def getSession_def update_conv'
           split: option.splits sum.splits)

lemma clearPricingContext_isolated:
  "geminiService (fst (clearPricingContext w a t)) = geminiService w"
  "b \<noteq> a \<Longrightarrow> getSession (fst (clearPricingContext w a t)) b = getSession w b"
  by (auto simp: clearPricingContext_def setSession_def getSession_def update_conv'
           split: option.splits)

section \<open>Setting, clearing and inspecting the pricing context\<close>

text \<open>
  Claim C7. For every session \<open>S\<close> and every file \<open>D\<close> attached to \<open>S\<close>: when the request
  names \<open>D\<close> by its identifier and the file is still on disk, \<^verbatim>\<open>updatePricingContext\<close>
  succeeds, and \<^verbatim>\<open>getPricingContextInfo\<close> then reports \<open>hasContext = true\<close> and
  \<open>fileName = D.originalName\<close>; after \<^verbatim>\<open>clearPricingContext\<close> it reports
  \<open>hasContext = false\<close>. The file name is read as \<^verbatim>\<open>fileName || null\<close>, so the name has to
  be non-empty; the upload route admits only names that end in \<^verbatim>\<open>.yaml\<close> or \<^verbatim>\<open>.yml\<close>.
\<close>

theorem pricing_context_roundtrip:
  assumes "getSession w sid = Some s"
  shows "(findFile (files s) v = Some D \<and> truthy v \<and> existsSync w (path D) \<and> originalName D \<noteq> [] \<longrightarrow>
            (\<exists>body. snd (updatePricingContext w sid (Some v) t) = Json 200 body) \<and>
            reported ''hasContext'' (getPricingContextInfo (fst (updatePricingContext w sid (Some v) t)) sid t')
              = Some (JBool True) \<and>
            reported ''fileName'' (getPricingContextInfo (fst (updatePricingContext w sid (Some v) t)) sid t')
              = Some (JStr (originalName D)))
       \<and> (\<exists>body. snd (clearPricingContext w sid t) = Json 200 body)
       \<and> reported ''hasContext'' (getPricingContextInfo (fst (clearPricingContext w sid t)) sid t')
              = Some (JBool False)"
proof -
  have u: "(\<exists>body. snd (updatePricingContext w sid (Some v) t) = Json 200 body) \<and>
            reported ''hasContext'' (getPricingContextInfo (fst (updatePricingContext w sid (Some v) t)) sid t')
              = Some (JBool True) \<and>
            reported ''fileName'' (getPricingContextInfo (fst (updatePricingContext w sid (Some v) t)) sid t')
              = Some (JStr (originalName D))"
    if h: "findFile (files s) v = Some D" "truthy v" "existsSync w (path D)" "originalName D \<noteq> []"
    using updatePricingContext_info(1) [OF assms h(1-3)]
          updatePricingContext_info(2) [OF assms h(1-3)]
          updatePricingContext_info(3) [OF assms h(1-3) h(4)]
    by simp
  from u clearPricingContext_info [OF assms, of t t'] show ?thesis
    by blast
qed

theorem pricing_context_roundtrip_witness:
  "reported ''hasContext''
     (getPricingContextInfo (fst (updatePricingContext demoWorldWithFile ''A'' (Some (JStr ''id-0'')) 9)) ''A'' 10)
     = Some (JBool True)
   \<and> reported ''fileName''
     (getPricingContextInfo (fst (updatePricingContext demoWorldWithFile ''A'' (Some (JStr ''id-0'')) 9)) ''A'' 10)
     = Some (JStr ''pricing.yaml'')
   \<and> reported ''hasContext''
     (getPricingContextInfo (fst (clearPricingContext demoWorldWithFile ''A'' 9)) ''A'' 10)
     = Some (JBool False)"
proof -
  let ?s = "the (getSession demoWorldWithFile ''A'')"
  let ?D = "the (findFile (files ?s) (JStr ''id-0''))"
  have s: "getSession demoWorldWithFile ''A'' = Some ?s"
    by code_simp
  have h: "findFile (files ?s) (JStr ''id-0'') = Some ?D \<and> truthy (JStr ''id-0'') \<and>
           existsSync demoWorldWithFile (path ?D) \<and> originalName ?D \<noteq> []"
    by code_simp
  have n: "originalName ?D = ''pricing.yaml''"
    by code_simp
  show ?thesis
    using pricing_context_roundtrip [OF s, of "JStr ''id-0''" ?D 9 10] h n by simp
qed

section \<open>The upload endpoint and the session's pricing context\<close>

text \<open>
  Claim C10. The file-upload endpoint never changes the \<^verbatim>\<open>pricingContext\<close> field of any
  session: whatever the request and whether or not the pricing-document heuristic fires,
  every session has the same \<^verbatim>\<open>pricingContext\<close> after \<^verbatim>\<open>uploadFile\<close> as before, and
  \<^verbatim>\<open>getPricingContextInfo\<close> reports the same \<open>hasContext\<close>.
\<close>

theorem uploadFile_keeps_pricingContext:
  "map_option pricingContext (getSession (fst (uploadFile env w sid reqFile t)) sid')
     = map_option pricingContext (getSession w sid')
   \<and> reported ''hasContext'' (getPricingContextInfo (fst (uploadFile env w sid reqFile t)) sid' t')
     = reported ''hasContext'' (getPricingContextInfo w sid' t')"
proof -
  have a: "map_option pricingContext (getSession (fst (uploadFile env w sid reqFile t)) sid')
     = map_option pricingContext (getSession w sid')"
    by (rule uploadFile_pricingContext)
  have b: "reported ''hasContext'' (getPricingContextInfo w1 sid' t')
     = reported ''hasContext'' (getPricingContextInfo w2 sid' t')"
    if "map_option pricingContext (getSession w1 sid') = map_option pricingContext (getSession w2 sid')"
    for w1 w2
    using that
    by (cases "getSession w1 sid'"; cases "getSession w2 sid'")
       (simp_all add: getPricingContextInfo_def reported_def)
  from a b [OF a] show ?thesis by simp
qed

theorem uploadFile_keeps_pricingContext_witness:
  "isPricingYamlFile demoWorld (originalname demoFullUpload) (multer_path demoFullUpload)
   \<and> map_option pricingContext (getSession (fst (uploadFile demoEnv demoWorld ''A'' (Some demoFullUpload) 5)) ''A'')
     = Some None
   \<and> reported ''hasContext''
       (getPricingContextInfo (fst (uploadFile demoEnv demoWorld ''A'' (Some demoFullUpload) 5)) ''A'' 6)
     = Some (JBool False)"
proof -
  have f: "isPricingYamlFile demoWorld (originalname demoFullUpload) (multer_path demoFullUpload)"
    by code_simp
  have b: "map_option pricingContext (getSession demoWorld ''A'') = Some None"
          "reported ''hasContext'' (getPricingContextInfo demoWorld ''A'' 6) = Some (JBool False)"
    by code_simp+
  show ?thesis
    using uploadFile_keeps_pricingContext [of demoEnv demoWorld "''A''" "Some demoFullUpload" 5 "''A''" 6] f b
    by simp
qed


section \<open>The pricing-document heuristic and the upload scenario\<close>

text \<open>
  Claim C5, as stated, fails. A file named \<^verbatim>\<open>pricing.yaml\<close> whose content has the markers
  \<^verbatim>\<open>saasName\<close>, \<^verbatim>\<open>plans\<close> and \<^verbatim>\<open>version\<close> does not make the heuristic fire, because the
  heuristic looks for \<^verbatim>\<open>version:\<close>, \<^verbatim>\<open>features:\<close> and \<^verbatim>\<open>plans:\<close> and needs all three;
  after the upload \<^verbatim>\<open>getPricingContextInfo\<close> reports \<open>hasContext = false\<close>. And for a file
  that does make the heuristic fire, the upload alone still leaves \<open>hasContext = false\<close>.
\<close>

theorem heuristic_upload_counterexample:
  "originalname demoUpload = ''pricing.yaml''
   \<and> includes_str demoYaml ''saasName'' \<and> includes_str demoYaml ''plans'' \<and> includes_str demoYaml ''version''
   \<and> readFileSync demoWorld (multer_path demoUpload) = Inr demoYaml
   \<and> \<not> isPricingYamlFile demoWorld (originalname demoUpload) (multer_path demoUpload)
   \<and> reported ''hasContext''
        (getPricingContextInfo (fst (uploadFile demoEnv demoWorld ''A'' (Some demoUpload) 5)) ''A'' 6)
      = Some (JBool False)
   \<and> originalname demoFullUpload = ''pricing.yaml''
   \<and> isPricingYamlFile demoWorld (originalname demoFullUpload) (multer_path demoFullUpload)
   \<and> reported ''hasContext''
        (getPricingContextInfo (fst (uploadFile demoEnv demoWorld ''A'' (Some demoFullUpload) 5)) ''A'' 6)
      = Some (JBool False)"
  by code_simp

text \<open>
  Claim C5, amended. Uploading a file named \<^verbatim>\<open>pricing.yaml\<close> whose first 50 lines contain,
  case-insensitively, the three markers \<^verbatim>\<open>version:\<close>, \<^verbatim>\<open>features:\<close> and \<^verbatim>\<open>plans:\<close> makes
  the pricing-document heuristic fire; once the session's context is set to the uploaded
  file with \<^verbatim>\<open>updatePricingContext\<close>, \<^verbatim>\<open>getPricingContextInfo\<close> reports
  \<open>hasContext = true\<close> and \<open>fileName = "pricing.yaml"\<close>. (The identifier drawn for the
  upload is assumed fresh among the session's files, and non-empty.)
\<close>

theorem heuristic_then_context:
  assumes s: "getSession w sid = Some s"
      and n: "originalname upl = ''pricing.yaml''"
      and st: "map_of (disk w) (multer_path upl) = Some st"
      and p: "multer_path upl \<noteq> []"
      and m: "\<forall>indicator \<in> set [''version:'', ''features:'', ''plans:''].
                includes_str (toLowerCase (join [newline] (take 50 (split newline (bytes st))))) indicator"
      and fresh: "\<forall>f \<in> set (files s). fileId f \<noteq> uuid env (uuidCount w)"
      and ne: "uuid env (uuidCount w) \<noteq> []"
  shows "isPricingYamlFile w ''pricing.yaml'' (multer_path upl)
       \<and> reported ''hasContext''
           (getPricingContextInfo
              (fst (updatePricingContext (fst (uploadFile env w sid (Some upl) t)) sid
                      (Some (JStr (uuid env (uuidCount w)))) t')) sid t'')
           = Some (JBool True)
       \<and> reported ''fileName''
           (getPricingContextInfo
              (fst (updatePricingContext (fst (uploadFile env w sid (Some upl) t)) sid
                      (Some (JStr (uuid env (uuidCount w)))) t')) sid t'')
           = Some (JStr ''pricing.yaml'')"
proof -
  have ext: "endsWith (toLowerCase ''pricing.yaml'') ''.yaml''"
    by code_simp
  have rd: "readFileSync w (multer_path upl) = Inr (bytes st)"
    using st by (simp add: readFileSync_def)
  have flt: "filter (\<lambda>indicator. includes_str (toLowerCase (join [newline] (take 50 (split newline (bytes st))))) indicator)
               pricingIndicators = pricingIndicators"
    using m by (simp add: pricingIndicators_def)
  have fires: "isPricingYamlFile w ''pricing.yaml'' (multer_path upl)"
    using ext rd flt by (simp add: isPricingYamlFile_def Let_def pricingIndicators_def)
  let ?w1 = "fst (uploadFile env w sid (Some upl) t)"
  let ?sf = "uploadedSessionFile env w upl t"
  have g1: "getSession ?w1 sid = Some (s\<lparr>files := files s @ [?sf], lastActivity := t\<rparr>)"
    by (rule uploadFile_session [OF s st p])
  have d1: "disk ?w1 = disk w"
    by (rule uploadFile_disk [OF s])
  have fnd: "findFile (files (s\<lparr>files := files s @ [?sf], lastActivity := t\<rparr>)) (JStr (uuid env (uuidCount w)))
               = Some ?sf"
    using fresh by (simp add: findFile_def find_append_fresh uploadedSessionFile_def)
  have tr: "truthy (JStr (uuid env (uuidCount w)))" using ne by simp
  have ex: "existsSync ?w1 (path ?sf)"
    using st d1 by (simp add: existsSync_def uploadedSessionFile_def)
  have on: "originalName ?sf = ''pricing.yaml''" "originalName ?sf \<noteq> []"
    using n by (simp_all add: uploadedSessionFile_def)
  show ?thesis
    using fires updatePricingContext_info(2) [OF g1 fnd tr ex, of t' t'']
          updatePricingContext_info(3) [OF g1 fnd tr ex on(2), of t' t''] on(1)
    by simp
qed

theorem heuristic_then_context_witness:
  "isPricingYamlFile demoWorld ''pricing.yaml'' (multer_path demoFullUpload)
   \<and> reported ''hasContext''
       (getPricingContextInfo
          (fst (updatePricingContext (fst (uploadFile demoEnv demoWorld ''A'' (Some demoFullUpload) 5)) ''A''
                  (Some (JStr (uuid demoEnv (uuidCount demoWorld)))) 6)) ''A'' 7)
       = Some (JBool True)
   \<and> reported ''fileName''
       (getPricingContextInfo
          (fst (updatePricingContext (fst (uploadFile demoEnv demoWorld ''A'' (Some demoFullUpload) 5)) ''A''
                  (Some (JStr (uuid demoEnv (uuidCount demoWorld)))) 6)) ''A'' 7)
       = Some (JStr ''pricing.yaml'')"
proof -
  let ?s = "the (getSession demoWorld ''A'')"
  let ?st = "the (map_of (disk demoWorld) (multer_path demoFullUpload))"
  have s: "getSession demoWorld ''A'' = Some ?s"
    by code_simp
  have n: "originalname demoFullUpload = ''pricing.yaml''"
    by code_simp
  have st: "map_of (disk demoWorld) (multer_path demoFullUpload) = Some ?st"
    by code_simp
  have p: "multer_path demoFullUpload \<noteq> []"
    by code_simp
  have m: "\<forall>indicator \<in> set [''version:'', ''features:'', ''plans:''].
             includes_str (toLowerCase (join [newline] (take 50 (split newline (bytes ?st))))) indicator"
    by code_simp
  have fresh: "\<forall>f \<in> set (files ?s). fileId f \<noteq> uuid demoEnv (uuidCount demoWorld)"
    by code_simp
  have ne: "uuid demoEnv (uuidCount demoWorld) \<noteq> []"
    by code_simp
  show ?thesis
    by (rule heuristic_then_context [OF s n st p m fresh ne])
qed

section \<open>Session isolation of the grounding document\<close>

text \<open>
  Claim C3 fails on the upload path. When the heuristic fires, \<^verbatim>\<open>uploadFile\<close> for session
  \<open>A\<close> reconfigures \<^verbatim>\<open>this.model\<close> of the controller's \<^verbatim>\<open>GeminiService\<close>, and
  \<^verbatim>\<open>generateResponse\<close> uses \<^verbatim>\<open>this.model\<close> for every session that has no pricing context
  of its own: after the upload, the model calls of any such session are grounded in the
  document of \<open>A\<close>. The theorem evaluates the code there.
\<close>

theorem upload_reaches_other_session:
  assumes a: "getSession w a = Some sa"
      and st: "map_of (disk w) (multer_path upl) = Some st"
      and p: "multer_path upl \<noteq> []"
      and fires: "isPricingYamlFile w (originalname upl) (multer_path upl)"
      and ne: "bytes st \<noteq> []" "originalname upl \<noteq> []"
      and b: "context_pricingContext ctxB = None"
  shows "modelToUseFor (fst (uploadFile env w a (Some upl) t)) (Some ctxB)
           = PricingSection (Some (originalname upl)) (bytes st)"
  using uploadFile_gemini [OF a st p fires, of env t] ne b
  by (simp add: modelToUseFor_def gemini_updatePricingContext_def getSystemPrompt_def)

theorem upload_reaches_other_session_witness:
  "modelToUseFor demoWorld
     (Some \<lparr>context_sessionId = ''B'', context_files = [], context_pricingContext = None\<rparr>)
     = NoPricingSection
   \<and> modelToUseFor (fst (uploadFile demoEnv demoWorld ''A'' (Some demoFullUpload) 5))
     (Some \<lparr>context_sessionId = ''B'', context_files = [], context_pricingContext = None\<rparr>)
     = PricingSection (Some ''pricing.yaml'') demoFullYaml
   \<and> reported ''content'' (snd (sendMessage demoEnv demoWorld ''B'' (Some ''What does my plan cost?'') None 7))
     = Some (JStr ''no document'')
   \<and> reported ''content''
       (snd (sendMessage demoEnv (fst (uploadFile demoEnv demoWorld ''A'' (Some demoFullUpload) 5))
               ''B'' (Some ''What does my plan cost?'') None 7))
     = Some (JStr demoFullYaml)"
proof -
  let ?sa = "the (getSession demoWorld ''A'')"
  let ?st = "the (map_of (disk demoWorld) (multer_path demoFullUpload))"
  let ?ctx = "\<lparr>context_sessionId = ''B'', context_files = [], context_pricingContext = None\<rparr>"
  have a: "getSession demoWorld ''A'' = Some ?sa"
    by code_simp
  have st: "map_of (disk demoWorld) (multer_path demoFullUpload) = Some ?st"
    by code_simp
  have p: "multer_path demoFullUpload \<noteq> []"
    by code_simp
  have fires: "isPricingYamlFile demoWorld (originalname demoFullUpload) (multer_path demoFullUpload)"
    by code_simp
  have ne: "bytes ?st \<noteq> []" "originalname demoFullUpload \<noteq> []"
    by code_simp+
  have b: "context_pricingContext ?ctx = None"
    by simp
  have v: "originalname demoFullUpload = ''pricing.yaml''" "bytes ?st = demoFullYaml"
    by code_simp+
  have before: "modelToUseFor demoWorld (Some ?ctx) = NoPricingSection"
    by code_simp
  have r1: "reported ''content'' (snd (sendMessage demoEnv demoWorld ''B'' (Some ''What does my plan cost?'') None 7))
     = Some (JStr ''no document'')"
    by code_simp
  have r2: "reported ''content''
       (snd (sendMessage demoEnv (fst (uploadFile demoEnv demoWorld ''A'' (Some demoFullUpload) 5))
               ''B'' (Some ''What does my plan cost?'') None 7))
     = Some (JStr demoFullYaml)"
    by code_simp
  show ?thesis
    using upload_reaches_other_session [OF a st p fires ne b, of demoEnv 5] v before r1 r2
    by simp
qed


section \<open>The session reaper\<close>

lemma deleteFile_frame:
  "deleteFile env w p = Inr w1 \<Longrightarrow>
     sessions w1 = sessions w \<and> schedulerSessions w1 = schedulerSessions w"
  by (auto simp: deleteFile_def unlinkSync_def split: if_splits sum.splits option.splits)

lemma deleteFile_disk:
  "map_of (disk (case deleteFile env w p of Inl e \<Rightarrow> w | Inr w1 \<Rightarrow> w1)) q
     = (if q = p \<and> fsUnlinkable env p then None else map_of (disk w) q)"
  by (auto simp: deleteFile_def unlinkSync_def existsSync_def fsUnlinkable_def delete_conv'
           split: sum.splits option.splits)

lemma deleteFiles_sessions:
  "sessions (deleteFiles env w fs) = sessions w \<and>
   schedulerSessions (deleteFiles env w fs) = schedulerSessions w"
proof (induction fs arbitrary: w)
  case Nil
  show ?case by simp
next
  case (Cons f fs)
  show ?case
  proof (cases "deleteFile env w (path f)")
    case (Inl e)
    then show ?thesis using Cons.IH [of w] by simp
  next
    case (Inr w1)
    then show ?thesis using Cons.IH [of w1] deleteFile_frame [OF Inr] by simp
  qed
qed

lemma deleteFiles_disk:
  "map_of (disk (deleteFiles env w fs)) q
     = (if q \<in> path ` set fs \<and> fsUnlinkable env q then None else map_of (disk w) q)"
proof (induction fs arbitrary: w)
  case Nil
  show ?case by simp
next
  case (Cons f fs)
  have "map_of (disk (deleteFiles env w (f # fs))) q
          = (if q \<in> path ` set fs \<and> fsUnlinkable env q then None
             else map_of (disk (case deleteFile env w (path f) of Inl e \<Rightarrow> w | Inr w1 \<Rightarrow> w1)) q)"
    by (simp add: Cons.IH)
  then show ?case
    by (auto simp: deleteFile_disk)
qed

lemma deleteFiles_Nil: "deleteFiles env w [] = w"
  by simp

lemma scan_Nil: "scanSessions env now [] w acc = (w, acc)"
  by simp

lemma scan_ids:
  "snd (scanSessions env now xs w acc) = acc @ map fst (filter (\<lambda>(sid, s). expired now s) xs)"
  by (induction xs arbitrary: w acc) (auto simp: expired_def Let_def)

lemma scan_sessions:
  "sessions (fst (scanSessions env now xs w acc)) = sessions w \<and>
   schedulerSessions (fst (scanSessions env now xs w acc)) = schedulerSessions w"
  by (induction xs arbitrary: w acc) (auto simp: Let_def deleteFiles_sessions)

lemma expiredFiles_Cons:
  "expiredFiles now ((sid, s) # xs) = (if expired now s then files s @ expiredFiles now xs else expiredFiles now xs)"
  by (simp add: expiredFiles_def)

lemma expiredFiles_Nil: "expiredFiles now [] = []"
  by (simp add: expiredFiles_def)

lemma scan_disk:
  "map_of (disk (fst (scanSessions env now xs w acc))) q =
     (if q \<in> path ` set (expiredFiles now xs) \<and> fsUnlinkable env q then None else map_of (disk w) q)"
proof (induction xs arbitrary: w acc)
  case Nil
  show ?case by (simp add: expiredFiles_Nil)
next
  case (Cons x xs)
  obtain sid s where x: "x = (sid, s)" by (cases x)
  show ?case
  proof (cases "expired now s")
    case True
    then have "scanSessions env now (x # xs) w acc
                 = scanSessions env now xs (deleteFiles env w (files s)) (acc @ [sid])"
      using x by (simp add: expired_def)
    then show ?thesis
      using True x by (simp add: Cons.IH deleteFiles_disk expiredFiles_Cons image_Un)
  next
    case False
    then have "scanSessions env now (x # xs) w acc = scanSessions env now xs w acc"
      using x by (simp add: expired_def)
    then show ?thesis
      using False x by (simp add: Cons.IH expiredFiles_Cons)
  qed
qed

lemma expiredFiles_mem:
  "q \<in> path ` set (expiredFiles now xs) \<longleftrightarrow>
     (\<exists>x \<in> set xs. expired now (snd x) \<and> q \<in> path ` set (files (snd x)))"
  by (auto simp: expiredFiles_def)

lemma deleteSessions_map:
  "map_of (deleteSessions m sids) sid = (if sid \<in> set sids then None else map_of m sid)"
  by (induction sids arbitrary: m) (auto simp: delete_conv')

lemma controllerSessions_set:
  "controllerSessions c (setControllerSessions c w m) = m"
  "disk (setControllerSessions c w m) = disk w"
  by (cases c; simp add: controllerSessions_def setControllerSessions_def)+

lemma cleanup_session:
  "map_of (controllerSessions c (cleanupInactiveSessions env c w now)) sid =
     (if sid \<in> fst ` {x \<in> set (controllerSessions c w). expired now (snd x)} then None
      else map_of (controllerSessions c w) sid)"
proof -
  let ?m = "controllerSessions c w"
  obtain w1 ids where sc: "scanSessions env now ?m w [] = (w1, ids)"
    by (cases "scanSessions env now ?m w []")
  have ids: "ids = map fst (filter (\<lambda>(sid, s). expired now s) ?m)"
    using scan_ids [of env now ?m w "[]"] sc by simp
  have w1: "controllerSessions c w1 = ?m"
    using scan_sessions [of env now ?m w "[]"] sc
    by (cases c) (simp_all add: controllerSessions_def)
  have "set ids = fst ` {x \<in> set ?m. expired now (snd x)}"
    unfolding ids by (auto simp: image_iff split: prod.splits)
  then show ?thesis
    using sc w1 by (simp add: cleanupInactiveSessions_def controllerSessions_set deleteSessions_map)
qed

lemma cleanup_disk:
  "map_of (disk (cleanupInactiveSessions env c w now)) q =
     (if (\<exists>x \<in> set (controllerSessions c w). expired now (snd x) \<and> q \<in> path ` set (files (snd x)))
         \<and> fsUnlinkable env q
      then None else map_of (disk w) q)"
proof -
  let ?m = "controllerSessions c w"
  obtain w1 ids where sc: "scanSessions env now ?m w [] = (w1, ids)"
    by (cases "scanSessions env now ?m w []")
  have "map_of (disk w1) q =
     (if q \<in> path ` set (expiredFiles now ?m) \<and> fsUnlinkable env q then None else map_of (disk w) q)"
    using scan_disk [of env now ?m w "[]" q] sc by simp
  then show ?thesis
    using sc by (simp add: cleanupInactiveSessions_def controllerSessions_set expiredFiles_mem)
qed

text \<open>
  The method itself, on the controller it is called on: a sweep at time \<open>now\<close> removes a
  session of that controller if and only if \<open>now - lastActivity\<close> exceeds 24 hours;
  every file of a removed session that the file system lets it unlink is gone, and a
  file it cannot unlink stays although its session is removed; a session that is not
  removed is unchanged.
\<close>

lemma sweep_of_own_controller:
  assumes d: "distinct (map fst (controllerSessions c w))"
      and s: "map_of (controllerSessions c w) sid = Some s"
  shows "(map_of (controllerSessions c (cleanupInactiveSessions env c w now)) sid = None)
           = (now - lastActivity s > 24 * 60 * 60 * 1000)"
    and "now - lastActivity s > 24 * 60 * 60 * 1000 \<Longrightarrow> f \<in> set (files s) \<Longrightarrow>
           existsSync (cleanupInactiveSessions env c w now) (path f)
             = (existsSync w (path f) \<and> \<not> fsUnlinkable env (path f))"
    and "\<not> now - lastActivity s > 24 * 60 * 60 * 1000 \<Longrightarrow>
           map_of (controllerSessions c (cleanupInactiveSessions env c w now)) sid = Some s"
proof -
  have thr: "(24 * 60 * 60 * 1000 :: int) = inactiveThreshold"
    by (simp add: inactiveThreshold_def)
  have mem: "(sid, s) \<in> set (controllerSessions c w)"
    using s by (simp add: map_of_SomeD)
  have uniq: "s' = s" if "(sid, s') \<in> set (controllerSessions c w)" for s'
    using d that s by simp
  have ex: "sid \<in> fst ` {x \<in> set (controllerSessions c w). expired now (snd x)} \<longleftrightarrow> expired now s"
  proof
    assume "sid \<in> fst ` {x \<in> set (controllerSessions c w). expired now (snd x)}"
    then obtain x where x: "x \<in> set (controllerSessions c w)" "expired now (snd x)" "fst x = sid" by auto
    then have "(sid, snd x) \<in> set (controllerSessions c w)" by (metis prod.collapse)
    then have "snd x = s" by (rule uniq)
    with x show "expired now s" by simp
  next
    assume "expired now s"
    with mem show "sid \<in> fst ` {x \<in> set (controllerSessions c w). expired now (snd x)}" by force
  qed
  show "(map_of (controllerSessions c (cleanupInactiveSessions env c w now)) sid = None)
           = (now - lastActivity s > 24 * 60 * 60 * 1000)"
    unfolding thr expired_def [symmetric] using ex s by (simp add: cleanup_session)
  show "map_of (controllerSessions c (cleanupInactiveSessions env c w now)) sid = Some s"
    if "\<not> now - lastActivity s > 24 * 60 * 60 * 1000"
    using that ex s unfolding thr expired_def [symmetric] by (simp add: cleanup_session)
  show "existsSync (cleanupInactiveSessions env c w now) (path f)
             = (existsSync w (path f) \<and> \<not> fsUnlinkable env (path f))"
    if e: "now - lastActivity s > 24 * 60 * 60 * 1000" and f: "f \<in> set (files s)"
  proof -
    have "expired now s" using e unfolding thr by (simp add: expired_def)
    then have "\<exists>x \<in> set (controllerSessions c w). expired now (snd x) \<and> path f \<in> path ` set (files (snd x))"
      using mem f by force
    then show ?thesis
      by (simp add: existsSync_def cleanup_disk)
  qed
qed

text \<open>
  Claim C9 fails in the running program. The sweep that runs is the scheduler's, and
  \<^verbatim>\<open>server.ts\<close> constructs the scheduler with a \<^verbatim>\<open>ChatController\<close> of its own, not with
  the one the routes use. The scheduled sweep never changes the session map of the
  routes' controller, and as long as the scheduler's controller holds no session (no
  request ever reaches it) the sweep changes nothing at all: a session created through
  the routes stays in the store with its files however long it has been inactive.
\<close>

theorem scheduled_sweep_misses_sessions:
  "sessions (scheduledSessionCleanup env w now) = sessions w
   \<and> (schedulerSessions w = [] \<longrightarrow> scheduledSessionCleanup env w now = w)"
proof -
  obtain w1 ids where sc: "scanSessions env now (schedulerSessions w) w [] = (w1, ids)"
    by (cases "scanSessions env now (schedulerSessions w) w []")
  have "sessions w1 = sessions w"
    using scan_sessions [of env now "schedulerSessions w" w "[]"] sc by simp
  then have a: "sessions (scheduledSessionCleanup env w now) = sessions w"
    using sc
    by (simp add: scheduledSessionCleanup_def cleanupInactiveSessions_def controllerSessions_def
          setControllerSessions_def)
  have b: "scheduledSessionCleanup env w now = w" if "schedulerSessions w = []"
    using that
    by (simp add: scheduledSessionCleanup_def cleanupInactiveSessions_def controllerSessions_def
          setControllerSessions_def)
  from a b show ?thesis by blast
qed

theorem scheduled_sweep_misses_sessions_witness:
  "90000000 - lastActivity (the (getSession demoStaleWorld ''old'')) > 24 * 60 * 60 * 1000
   \<and> getSession (scheduledSessionCleanup demoEnv demoStaleWorld 90000000) ''old''
       = Some (the (getSession demoStaleWorld ''old''))
   \<and> existsSync (scheduledSessionCleanup demoEnv demoStaleWorld 90000000) ''/srv/uploads/file-1.yaml''
   \<and> scheduledSessionCleanup demoEnv demoStaleWorld 90000000 = demoStaleWorld"
proof -
  have e: "schedulerSessions demoStaleWorld = []"
    by code_simp
  have o: "90000000 - lastActivity (the (getSession demoStaleWorld ''old'')) > 24 * 60 * 60 * 1000"
          "getSession demoStaleWorld ''old'' = Some (the (getSession demoStaleWorld ''old''))"
          "existsSync demoStaleWorld ''/srv/uploads/file-1.yaml''"
    by code_simp+
  show ?thesis
    using scheduled_sweep_misses_sessions [of demoEnv demoStaleWorld 90000000] e o
    by simp
qed

text \<open>Called on the routes' controller, the same method would remove that session and its
  file, and keep the session touched a millisecond before the sweep.\<close>

lemma sweep_of_routes_controller_example:
  "map fst (sessions (cleanupInactiveSessions demoEnv RoutesController demoStaleWorld 90000000)) = [''live'']"
  "\<not> existsSync (cleanupInactiveSessions demoEnv RoutesController demoStaleWorld 90000000)
       ''/srv/uploads/file-1.yaml''"
  "existsSync (cleanupInactiveSessions demoEnv RoutesController demoStaleWorld 90000000)
       ''/srv/uploads/file-2.yaml''"
  by code_simp+

section \<open>Resolving a file identifier\<close>



section \<open>The dispatcher and unknown tools\<close>

lemma handleToolCall_unknown:
  assumes "fc_name fc \<notin> set toolNames"
  shows "handleToolCall env w fc sessionFiles t = (w, Inl (Error (''Unknown function call: '' @ fc_name fc)))"
  using assms by (simp add: handleToolCall_def toolNames_def)

text \<open>
  Claim C2, as stated, fails: for a name outside the table \<^verbatim>\<open>handleToolCall\<close> returns no
  outcome at all. The \<^verbatim>\<open>default\<close> branch throws, and the \<^verbatim>\<open>catch\<close> around the dispatch
  rethrows the error.
\<close>

theorem unknown_tool_counterexample:
  "''deleteEverything'' \<notin> set toolNames \<and>
   snd (handleToolCall demoEnv demoWorld \<lparr>fc_name = ''deleteEverything'', fc_arguments = []\<rparr> [] 0)
     = Inl (Error ''Unknown function call: deleteEverything'')"
  by code_simp

text \<open>
  Claim C2, amended. For every tool call whose name is not in the dispatcher's table,
  \<^verbatim>\<open>handleToolCall\<close> changes no state and throws an error whose message,
  \<open>Unknown function call: <name>\<close>, names the unknown tool. The error passes through
  \<^verbatim>\<open>executeFunctionCalls\<close>; when the model asked for that tool, \<^verbatim>\<open>generateResponse\<close> catches
  it and throws \<open>Failed to generate response: Unknown function call: <name>\<close> in turn.
\<close>

theorem unknown_tool_raises:
  assumes "fc_name fc \<notin> set toolNames"
  shows "handleToolCall env w fc sessionFiles t
           = (w, Inl (Error (''Unknown function call: '' @ fc_name fc)))
       \<and> executeFunctionCalls env w [fc] sessionFiles t []
           = (w, Inl (Error (''Unknown function call: '' @ fc_name fc)))
       \<and> (convertToGeminiContent history = Inr contents \<and>
          generateContent env (modelToUseFor w ctx) contents = Inr r \<and>
          response_functionCalls r = Some [(fc_name fc, Some (fc_arguments fc))] \<longrightarrow>
            generateResponse env w history ctx t
              = (w, Inl (Error (''Failed to generate response: Unknown function call: '' @ fc_name fc))))"
proof -
  have h: "handleToolCall env w fc fs t = (w, Inl (Error (''Unknown function call: '' @ fc_name fc)))" for fs
    using assms by (rule handleToolCall_unknown)
  have e: "executeFunctionCalls env w [fc] fs t [] = (w, Inl (Error (''Unknown function call: '' @ fc_name fc)))" for fs
    by (simp add: h)
  have fc: "\<lparr>fc_name = fc_name fc, fc_arguments = fc_arguments fc\<rparr> = fc" by simp
  have g: "generateResponse env w history ctx t
              = (w, Inl (Error (''Failed to generate response: Unknown function call: '' @ fc_name fc)))"
    if "convertToGeminiContent history = Inr contents"
       "generateContent env (modelToUseFor w ctx) contents = Inr r"
       "response_functionCalls r = Some [(fc_name fc, Some (fc_arguments fc))]"
    using that by (simp add: generateResponse_def Let_def fc h)
  from h e g show ?thesis by blast
qed

theorem unknown_tool_raises_witness:
  "snd (sendMessage (demoEnv\<lparr>generateContent := demoModel (Some (''deleteEverything'', Some []))\<rparr>)
          demoWorld ''A'' (Some ''hello'') None 5)
     = Json 500 (JObj [(''success'', JBool False),
                       (''error'', JStr ''Failed to send message due to an internal error'')])
   \<and> handleToolCall demoEnv demoWorld \<lparr>fc_name = ''deleteEverything'', fc_arguments = []\<rparr> [] 0
     = (demoWorld, Inl (Error (''Unknown function call: '' @ ''deleteEverything'')))"
proof -
  have n: "fc_name \<lparr>fc_name = ''deleteEverything'', fc_arguments = []\<rparr> \<notin> set toolNames"
    by code_simp
  have s: "snd (sendMessage (demoEnv\<lparr>generateContent := demoModel (Some (''deleteEverything'', Some []))\<rparr>)
          demoWorld ''A'' (Some ''hello'') None 5)
     = Json 500 (JObj [(''success'', JBool False),
                       (''error'', JStr ''Failed to send message due to an internal error'')])"
    by code_simp
  show ?thesis
    using unknown_tool_raises [OF n, of demoEnv demoWorld "[]" 0] s by simp
qed

section \<open>Missing required arguments\<close>

text \<open>Five handlers answer a missing (falsy) required argument with a failure outcome that
  names it.\<close>

lemma missing_argument_failures:
  "falsy (map_of args ''pricingFileId'') \<Longrightarrow>
     handleGetPricingSummary env w args fs = failure ''Missing required parameter: pricingFileId''"
  "falsy (map_of args ''pricingFileId'') \<or> falsy (map_of args ''operation'') \<or> falsy (map_of args ''solver'') \<Longrightarrow>
     handleStartPricingAnalysisJob env w args fs
       = failure ''Missing required parameters: pricingFileId, operation, and solver are required''"
  "falsy (map_of args ''jobId'') \<Longrightarrow>
     handleGetPricingAnalysisJobStatus env args = failure ''Missing required parameter: jobId''"
  "falsy (map_of args ''url'') \<Longrightarrow>
     handleInitiatePricingPageTransformation env w args = (w, failure ''Missing required parameter: url'')"
  "falsy (map_of args ''taskId'') \<Longrightarrow>
     handleGetTransformationTaskStatus env w args t = (w, failure ''Missing required parameter: taskId'')"
  by (simp_all add: handleGetPricingSummary_def handleStartPricingAnalysisJob_def
        handleGetPricingAnalysisJobStatus_def handleInitiatePricingPageTransformation_def
        handleGetTransformationTaskStatus_def)

text \<open>
  Claim C6 fails for the argument \<^verbatim>\<open>topic\<close>: unlike its five siblings above,
  \<^verbatim>\<open>handleGetPricingStrategyAdvice\<close> throws when \<^verbatim>\<open>topic\<close> is missing, and the dispatcher
  rethrows, so \<^verbatim>\<open>handleToolCall\<close> returns no failure outcome. The theorem evaluates the
  dispatcher on such a call.
\<close>

theorem missing_topic_throws:
  assumes "falsy (map_of args ''topic'')"
  shows "handleToolCall env w \<lparr>fc_name = ''getPricingStrategyAdvice'', fc_arguments = args\<rparr> sessionFiles t
           = (w, Inl (Error ''Topic is required for pricing strategy advice''))"
  using assms by (simp add: handleToolCall_def handleGetPricingStrategyAdvice_def)

theorem missing_topic_throws_witness:
  "falsy (map_of ([] :: (string \<times> json) list) ''topic'') \<and>
   handleToolCall demoEnv demoWorld \<lparr>fc_name = ''getPricingStrategyAdvice'', fc_arguments = []\<rparr> [] 0
     = (demoWorld, Inl (Error ''Topic is required for pricing strategy advice''))"
proof -
  have f: "falsy (map_of ([] :: (string \<times> json) list) ''topic'')"
    by (simp add: falsy_def)
  show ?thesis
    using f missing_topic_throws [OF f, of demoEnv demoWorld "[]" 0] by simp
qed


section \<open>Polling jobs and transformation tasks\<close>

lemma spread_other:
  "k \<notin> fst ` set b \<Longrightarrow> map_of (spread a b) k = map_of a k"
proof (induction b arbitrary: a)
  case Nil
  show ?case by (simp add: spread_def)
next
  case (Cons x b)
  obtain k' v where x: "x = (k', v)" by (cases x)
  have "spread a (x # b) = spread (AList.update k' v a) b"
    using x by (simp add: spread_def)
  moreover have "map_of (spread (AList.update k' v a) b) k = map_of (AList.update k' v a) k"
    using Cons by simp
  moreover have "k \<noteq> k'" using Cons.prems x by auto
  ultimately show ?case by (simp add: update_conv')
qed

lemma props_status: "map_of (transformationResultProps r) ''status'' = Some (JStr (result_status r))"
  by (simp add: transformationResultProps_def)

lemma poll_status:
  assumes tid: "map_of args ''taskId'' = Some taskId" "truthy taskId"
      and api: "transformationAPI env"
      and r: "getTransformationStatus env taskId = Inr r"
  shows "dataStatus (snd (handleGetTransformationTaskStatus env w args t)) = Some (JStr (result_status r))"
proof -
  have f: "\<not> falsy (Some taskId)" using tid(2) by (simp add: falsy_def)
  have k1: "''status'' \<notin> fst ` set [(''taskId'', taskId)]" by simp
  have k2: "''status'' \<notin> fst ` set
     [(''yamlContentPreview'', a), (''yamlSize'', b), (''canBeUsedForAnalysis'', c),
      (''savedFile'', d), (''contextAutoUpdated'', e)]" for a b c d e :: json
    by simp
  have k3: "''status'' \<notin> fst ` set
     [(''yamlContentPreview'', a), (''yamlSize'', b), (''canBeUsedForAnalysis'', c),
      (''saveError'', d), (''contextAutoUpdated'', e)]" for a b c d e :: json
    by simp
  show ?thesis
    using tid f api r
    by (simp add: handleGetTransformationTaskStatus_def dataStatus_def Let_def
          spread_other [OF k1] spread_other [OF k2] spread_other [OF k3] props_status
          split: prod.splits sum.splits option.splits)
qed

lemma poll_not_completed:
  assumes tid: "map_of args ''taskId'' = Some taskId" "truthy taskId"
      and api: "transformationAPI env"
      and r: "getTransformationStatus env taskId = Inr r"
      and nc: "result_status r \<noteq> ''COMPLETED'' \<or> yamlContent r = None \<or> yamlContent r = Some []"
  shows "fst (handleGetTransformationTaskStatus env w args t) = w"
proof -
  have f: "\<not> falsy (Some taskId)" using tid(2) by (simp add: falsy_def)
  show ?thesis
    using tid f api r nc
    by (auto simp: handleGetTransformationTaskStatus_def split: option.splits)
qed

lemma poll_completed:
  assumes tid: "map_of args ''taskId'' = Some taskId" "truthy taskId"
      and api: "transformationAPI env"
      and r: "getTransformationStatus env taskId = Inr r"
      and c: "result_status r = ''COMPLETED''" "yamlContent r = Some y" "y \<noteq> []"
      and wr: "fsWritable env (transformationPath env w taskId)"
  shows "disk (fst (handleGetTransformationTaskStatus env w args t))
           = AList.update (transformationPath env w taskId) \<lparr>bytes = y, mtime = t\<rparr> (disk w)"
    and "uuidCount (fst (handleGetTransformationTaskStatus env w args t)) = Suc (uuidCount w)"
proof -
  have f: "\<not> falsy (Some taskId)" using tid(2) by (simp add: falsy_def)
  show "disk (fst (handleGetTransformationTaskStatus env w args t))
           = AList.update (transformationPath env w taskId) \<lparr>bytes = y, mtime = t\<rparr> (disk w)"
    using tid f api r c wr
    by (simp add: handleGetTransformationTaskStatus_def saveTransformationResult_def Let_def
          transformationPath_def writeFileSync_def fsWritable_def split: option.splits)
  show "uuidCount (fst (handleGetTransformationTaskStatus env w args t)) = Suc (uuidCount w)"
    using tid f api r c wr
    by (simp add: handleGetTransformationTaskStatus_def saveTransformationResult_def Let_def
          transformationPath_def writeFileSync_def fsWritable_def split: option.splits)
qed

text \<open>When the file system refuses the write (the task identifier names a directory that
  does not exist, say), the poll stores nothing; it has still drawn an identifier.\<close>

lemma poll_write_refused:
  assumes tid: "map_of args ''taskId'' = Some taskId" "truthy taskId"
      and api: "transformationAPI env"
      and r: "getTransformationStatus env taskId = Inr r"
      and c: "result_status r = ''COMPLETED''" "yamlContent r = Some y" "y \<noteq> []"
      and wr: "\<not> fsWritable env (transformationPath env w taskId)"
  shows "fst (handleGetTransformationTaskStatus env w args t) = w\<lparr>uuidCount := Suc (uuidCount w)\<rparr>"
proof -
  have f: "\<not> falsy (Some taskId)" using tid(2) by (simp add: falsy_def)
  obtain e where e: "fsWriteError env (transformationPath env w taskId) = Some e"
    using wr by (auto simp: fsWritable_def)
  show ?thesis
    using tid f api r c e
    by (simp add: handleGetTransformationTaskStatus_def saveTransformationResult_def Let_def
          transformationPath_def writeFileSync_def)
qed

text \<open>The analysis-job poll changes no state, and its outcome depends on the collaborator's
  answer alone.\<close>

lemma job_poll_pure:
  "handleToolCall env w \<lparr>fc_name = ''getPricingAnalysisJobStatus'', fc_arguments = jobArgs\<rparr> fs t
     = (w, Inr (handleGetPricingAnalysisJobStatus env jobArgs))"
  by (simp add: handleToolCall_def)

text \<open>The stored name is \<^verbatim>\<open>path.join\<close> of the uploads directory and a name built from the
  task identifier, so an identifier with path separators moves the copy: with \<open>a/../b\<close>
  it lands at \<^verbatim>\<open>uploads/b_<identifier>.yaml\<close>; with \<open>a/b\<close> the directory
  \<^verbatim>\<open>uploads/transformation_a\<close> does not exist, the write throws and nothing is stored.\<close>

lemma poll_path_examples:
  "transformationPath demoEnv demoWorld (JStr ''task-1'') = ''uploads/transformation_task-1_id-0.yaml''"
  "transformationPath demoEnv demoWorld (JStr ''a/../b'') = ''uploads/b_id-0.yaml''"
  "transformationPath demoEnv demoWorld (JStr ''a/b'') = ''uploads/transformation_a/b_id-0.yaml''"
  "\<not> fsWritable demoEnv (transformationPath demoEnv demoWorld (JStr ''a/b''))"
  "snd (saveTransformationResult demoEnv demoWorld ''a/b'' demoFullYaml ''https://example.com'' 2)
     = Inl (Error (''ENOENT: no such file or directory, open '' @ quoted ''uploads/transformation_a/b_id-0.yaml''))"
  "disk (fst (saveTransformationResult demoEnv demoWorld ''a/b'' demoFullYaml ''https://example.com'' 2))
     = disk demoWorld"
  "map fst (disk (fst (saveTransformationResult demoEnv demoWorld ''a/../b'' demoFullYaml ''https://example.com'' 2)))
     = [''/srv/uploads/file-1.yaml'', ''/srv/uploads/file-2.yaml'', ''uploads/b_id-0.yaml'']"
  by code_simp+

text \<open>
  Claim C4 fails in the program. A poll of a transformation never looks at what earlier
  polls have stored: whenever the collaborator answers \<open>COMPLETED\<close> with non-empty content
  and the file system accepts the write, the poll reports \<open>COMPLETED\<close>, draws a new
  identifier and writes the content to the path
  \<^verbatim>\<open>path.join('./uploads', 'transformation_<taskId>_<identifier>.yaml')\<close>, in whatever
  state it is called, so also in the state a previous poll of the same task has left.
  Polling a completed transformation twice therefore stores its output twice.
\<close>

theorem completed_poll_stores_another_copy:
  assumes tid: "map_of args ''taskId'' = Some taskId" "truthy taskId"
      and api: "transformationAPI env"
      and r: "getTransformationStatus env taskId = Inr r"
      and c: "result_status r = ''COMPLETED''" "yamlContent r = Some y" "y \<noteq> []"
      and wr: "fsWritable env (transformationPath env w taskId)"
  shows "dataStatus (snd (handleGetTransformationTaskStatus env w args t)) = Some (JStr ''COMPLETED'')
       \<and> disk (fst (handleGetTransformationTaskStatus env w args t))
           = AList.update (transformationPath env w taskId) \<lparr>bytes = y, mtime = t\<rparr> (disk w)
       \<and> uuidCount (fst (handleGetTransformationTaskStatus env w args t)) = Suc (uuidCount w)"
  using poll_status [OF tid api r, of w t] poll_completed [OF tid api r c wr, of t] c(1)
  by simp

theorem completed_poll_stores_another_copy_witness:
  "outcomeStatus (snd (handleToolCall demoEnv demoStarted demoPoll [] 2)) = Some (JStr ''COMPLETED'')
   \<and> map fst (disk demoStarted) = [''/srv/uploads/file-1.yaml'', ''/srv/uploads/file-2.yaml'']
   \<and> map fst (disk demoPolledOnce)
       = [''/srv/uploads/file-1.yaml'', ''/srv/uploads/file-2.yaml'',
          ''uploads/transformation_task-1_id-0.yaml'']
   \<and> dataStatus (snd (handleGetTransformationTaskStatus demoEnv demoPolledOnce (fc_arguments demoPoll) 3))
       = Some (JStr ''COMPLETED'')
   \<and> disk (fst (handleGetTransformationTaskStatus demoEnv demoPolledOnce (fc_arguments demoPoll) 3))
       = AList.update ''uploads/transformation_task-1_id-1.yaml''
           \<lparr>bytes = demoFullYaml, mtime = 3\<rparr> (disk demoPolledOnce)
   \<and> map fst (disk demoPolledTwice)
       = [''/srv/uploads/file-1.yaml'', ''/srv/uploads/file-2.yaml'',
          ''uploads/transformation_task-1_id-0.yaml'', ''uploads/transformation_task-1_id-1.yaml'']
   \<and> readFileSync demoPolledTwice ''uploads/transformation_task-1_id-0.yaml'' = Inr demoFullYaml
   \<and> readFileSync demoPolledTwice ''uploads/transformation_task-1_id-1.yaml'' = Inr demoFullYaml"
proof -
  let ?r = "\<lparr>result_status = ''COMPLETED'', yamlContent = Some demoFullYaml,
              result_error = None, canBeUsedForAnalysis = Some True\<rparr>"
  have tid: "map_of (fc_arguments demoPoll) ''taskId'' = Some (JStr ''task-1'')" "truthy (JStr ''task-1'')"
    by code_simp+
  have api: "transformationAPI demoEnv"
    by code_simp
  have r: "getTransformationStatus demoEnv (JStr ''task-1'') = Inr ?r"
    by code_simp
  have c: "result_status ?r = ''COMPLETED''" "yamlContent ?r = Some demoFullYaml" "demoFullYaml \<noteq> []"
    by code_simp+
  have p: "transformationPath demoEnv demoPolledOnce (JStr ''task-1'') = ''uploads/transformation_task-1_id-1.yaml''"
    by code_simp
  have wr: "fsWritable demoEnv (transformationPath demoEnv demoPolledOnce (JStr ''task-1''))"
    by code_simp
  have rest:
    "outcomeStatus (snd (handleToolCall demoEnv demoStarted demoPoll [] 2)) = Some (JStr ''COMPLETED'')"
    "map fst (disk demoStarted) = [''/srv/uploads/file-1.yaml'', ''/srv/uploads/file-2.yaml'']"
    "map fst (disk demoPolledOnce)
       = [''/srv/uploads/file-1.yaml'', ''/srv/uploads/file-2.yaml'',
          ''uploads/transformation_task-1_id-0.yaml'']"
    "map fst (disk demoPolledTwice)
       = [''/srv/uploads/file-1.yaml'', ''/srv/uploads/file-2.yaml'',
          ''uploads/transformation_task-1_id-0.yaml'', ''uploads/transformation_task-1_id-1.yaml'']"
    "readFileSync demoPolledTwice ''uploads/transformation_task-1_id-0.yaml'' = Inr demoFullYaml"
    "readFileSync demoPolledTwice ''uploads/transformation_task-1_id-1.yaml'' = Inr demoFullYaml"
    by code_simp+
  show ?thesis
    using completed_poll_stores_another_copy [OF tid api r c wr, of 3] p rest
    by simp
qed

text \<open>The repeated poll also reports that nothing was saved: the task's address was dropped
  from the map after the first save, the fallback \<open>transformation-task-1\<close> is not an
  address \<^verbatim>\<open>new URL\<close> accepts, and the exception is raised after the file is written.\<close>

lemma repeated_poll_reports_save_error:
  "field ''saveError'' (the (field ''data''
      (snd (handleGetTransformationTaskStatus demoEnv demoPolledOnce (fc_arguments demoPoll) 3))))
     = Some (JStr ''Failed to save file: Invalid URL'')"
  "field ''savedFile'' (the (field ''data''
      (snd (handleGetTransformationTaskStatus demoEnv demoPolledOnce (fc_arguments demoPoll) 3))))
     = None"
  by code_simp+


section \<open>The message log of a turn\<close>

lemma modelToUseFor_session:
  "modelToUseFor (setSession w sid s1)
     (Some \<lparr>context_sessionId = i, context_files = fs, context_pricingContext = pricingContext s\<rparr>)
     = sessionPrompt w s"
  by (simp add: modelToUseFor_def sessionPrompt_def setSession_def split: option.splits)

lemma generateResponse_direct:
  assumes "convertToGeminiContent history = Inr contents"
      and "generateContent env (modelToUseFor w ctx) contents = Inr r"
      and "response_functionCalls r = None \<or> response_functionCalls r = Some []"
  shows "generateResponse env w history ctx t
           = (w, Inr \<lparr>response_content = response_text r, functionCalls = None, usage = usageOf r\<rparr>)"
  using assms by (auto simp: generateResponse_def Let_def)

lemma generateResponse_model_fails:
  assumes "convertToGeminiContent history = Inr contents"
      and "generateContent env (modelToUseFor w ctx) contents = Inl e"
  shows "generateResponse env w history ctx t
           = (w, Inl (Error (''Failed to generate response: '' @ message_of e)))"
  using assms by (simp add: generateResponse_def Let_def)

lemma generateResponse_convert_fails:
  assumes "convertToGeminiContent history = Inl e"
  shows "generateResponse env w history ctx t
           = (w, Inl (Error (''Failed to generate response: '' @ message_of e)))"
  using assms by (simp add: generateResponse_def)

text \<open>No tool handler, and so no model call, touches the session map.\<close>

lemma sessions_initiate:
  "sessions (fst (handleInitiatePricingPageTransformation env w args)) = sessions w"
  by (simp add: handleInitiatePricingPageTransformation_def split: option.splits sum.splits)

lemma sessions_saveTransformationResult:
  "sessions (fst (saveTransformationResult env w tid y u t)) = sessions w"
  by (auto simp: saveTransformationResult_def Let_def writeFileSync_def
           split: option.splits sum.splits if_splits)

lemma sessions_poll:
  "sessions (fst (handleGetTransformationTaskStatus env w args t)) = sessions w"
proof -
  have "sessions w1 = sessions w" if "saveTransformationResult env w tid y u t = (w1, r)" for w1 r tid y u
    using sessions_saveTransformationResult [of env w tid y u t] that by simp
  then show ?thesis
    by (auto simp: handleGetTransformationTaskStatus_def Let_def
             split: option.splits sum.splits prod.splits if_splits)
qed

lemma sessions_handleToolCall:
  "sessions (fst (handleToolCall env w fc fs t)) = sessions w"
  using sessions_initiate [of env w "fc_arguments fc"] sessions_poll [of env w "fc_arguments fc" t]
  by (auto simp: handleToolCall_def split: prod.splits)

lemma sessions_generateResponse:
  "sessions (fst (generateResponse env w history ctx t)) = sessions w"
proof -
  have "sessions w1 = sessions w" if "handleToolCall env w fc fs t = (w1, r)" for w1 r fc fs
    using sessions_handleToolCall [of env w fc fs t] that by simp
  then show ?thesis
    by (auto simp: generateResponse_def Let_def split: sum.splits option.splits list.splits prod.splits)
qed

text \<open>What a turn leaves in the log, for any outcome of \<^verbatim>\<open>generateResponse\<close>: the user
  message, followed by at most one model message.\<close>

lemma sendMessage_log:
  assumes s: "getSession w sid = Some s" and sid: "sid \<noteq> []" and msg: "message \<noteq> []"
      and gen: "generateResponse env
                  (setSession w sid (s\<lparr>lastActivity := t, messages := messages s @ [userMessageOf message nt]\<rparr>))
                  (messages s @ [userMessageOf message nt])
                  (Some \<lparr>context_sessionId = sessionId s, context_files = filesMap (files s),
                         context_pricingContext = pricingContext s\<rparr>) t = (w2, res)"
  shows "sessionLog (fst (sendMessage env w sid (Some message) nt t)) sid
           = messages s @ [userMessageOf message nt] @
             (case res of Inl e \<Rightarrow> [] | Inr g \<Rightarrow> modelMessageOf g)"
proof -
  let ?s1 = "s\<lparr>lastActivity := t, messages := messages s @ [userMessageOf message nt]\<rparr>"
  have "sessions w2 = sessions (setSession w sid ?s1)"
    using sessions_generateResponse
            [of env "setSession w sid ?s1" "messages s @ [userMessageOf message nt]"
                "Some \<lparr>context_sessionId = sessionId s, context_files = filesMap (files s),
                       context_pricingContext = pricingContext s\<rparr>" t] gen
    by simp
  then have g2: "getSession w2 sid = Some ?s1"
    by (simp add: getSession_def setSession_def update_conv')
  show ?thesis
  proof (cases res)
    case (Inl e)
    then show ?thesis
      using s sid msg gen g2
      by (cases nt) (simp_all add: sendMessage_def Let_def userMessageOf_def sessionLog_def)
  next
    case (Inr g)
    then show ?thesis
      using s sid msg gen g2
      by (cases nt)
         (simp_all add: sendMessage_def Let_def userMessageOf_def sessionLog_def modelMessageOf_def
            getSession_setSession)
  qed
qed

text \<open>
  Claim C1, as stated, fails in two ways. When the model call fails, the turn ends with
  the user message alone in the log. When the model asks for one tool, which runs and
  is answered in a second model call, the log ends with two messages: the user message
  and one model message that holds the final text and the tool call; no \<open>tool\<close> message
  is appended.
\<close>

theorem turn_log_counterexample:
  "sessionLog (fst (sendMessage demoFailEnv demoWorld ''A'' (Some ''hello'') None 5)) ''A''
     = [userMessageOf ''hello'' None]
   \<and> sessionLog (fst (sendMessage demoToolEnv demoWorld ''A'' (Some ''hello'') None 5)) ''A''
     = [userMessageOf ''hello'' None,
        \<lparr>role = Model, parts = [textPart ''no document'', callPart demoAdviceCall]\<rparr>]"
  by code_simp

text \<open>
  Claim C1, amended. For every inbound user message that \<^verbatim>\<open>sendMessage\<close> accepts (the
  session exists, identifier and message are non-empty), the user message is appended to
  the session's log first. After a turn with no tool call whose model text is non-empty,
  the log ends with \<open>user, model(text)\<close>. When the model answers with empty text and no
  tool call, or the model call fails, or the log cannot be converted for the model, the
  log ends with the user message alone: the turn is not rolled back. (What a turn with a
  tool call leaves in the log is not part of this statement.)
\<close>

theorem turn_log:
  assumes s: "getSession w sid = Some s" and sid: "sid \<noteq> []" and msg: "message \<noteq> []"
  shows "(convertToGeminiContent (messages s @ [userMessageOf message nt]) = Inr contents \<and>
          generateContent env (sessionPrompt w s) contents = Inr r \<and>
          (response_functionCalls r = None \<or> response_functionCalls r = Some []) \<and>
          response_text r \<noteq> [] \<longrightarrow>
            sessionLog (fst (sendMessage env w sid (Some message) nt t)) sid
              = messages s @ [userMessageOf message nt,
                              \<lparr>role = Model, parts = [textPart (response_text r)]\<rparr>])
       \<and> (convertToGeminiContent (messages s @ [userMessageOf message nt]) = Inr contents \<and>
          generateContent env (sessionPrompt w s) contents = Inr r \<and>
          (response_functionCalls r = None \<or> response_functionCalls r = Some []) \<and>
          response_text r = [] \<longrightarrow>
            sessionLog (fst (sendMessage env w sid (Some message) nt t)) sid
              = messages s @ [userMessageOf message nt])
       \<and> (convertToGeminiContent (messages s @ [userMessageOf message nt]) = Inr contents \<and>
          generateContent env (sessionPrompt w s) contents = Inl e \<longrightarrow>
            sessionLog (fst (sendMessage env w sid (Some message) nt t)) sid
              = messages s @ [userMessageOf message nt])
       \<and> (convertToGeminiContent (messages s @ [userMessageOf message nt]) = Inl e \<longrightarrow>
            sessionLog (fst (sendMessage env w sid (Some message) nt t)) sid
              = messages s @ [userMessageOf message nt])"
proof -
  let ?u = "userMessageOf message nt"
  let ?s1 = "s\<lparr>lastActivity := t, messages := messages s @ [?u]\<rparr>"
  let ?w1 = "setSession w sid ?s1"
  let ?ctx = "Some \<lparr>context_sessionId = sessionId s, context_files = filesMap (files s),
                    context_pricingContext = pricingContext s\<rparr>"
  have m: "modelToUseFor ?w1 ?ctx = sessionPrompt w s"
    by (rule modelToUseFor_session)
  have d: "sessionLog (fst (sendMessage env w sid (Some message) nt t)) sid
              = messages s @ [?u] @ (if response_text r \<noteq> []
                                     then [\<lparr>role = Model, parts = [textPart (response_text r)]\<rparr>] else [])"
    if "convertToGeminiContent (messages s @ [?u]) = Inr contents"
       "generateContent env (sessionPrompt w s) contents = Inr r"
       "response_functionCalls r = None \<or> response_functionCalls r = Some []"
  proof -
    have "generateResponse env ?w1 (messages s @ [?u]) ?ctx t
           = (?w1, Inr \<lparr>response_content = response_text r, functionCalls = None, usage = usageOf r\<rparr>)"
      using that m by (intro generateResponse_direct) simp_all
    from sendMessage_log [OF s sid msg this] show ?thesis
      by (simp add: modelMessageOf_def)
  qed
  have f1: "sessionLog (fst (sendMessage env w sid (Some message) nt t)) sid = messages s @ [?u]"
    if "convertToGeminiContent (messages s @ [?u]) = Inr contents"
       "generateContent env (sessionPrompt w s) contents = Inl e"
  proof -
    have "generateResponse env ?w1 (messages s @ [?u]) ?ctx t
           = (?w1, Inl (Error (''Failed to generate response: '' @ message_of e)))"
      using that m by (intro generateResponse_model_fails) simp_all
    from sendMessage_log [OF s sid msg this] show ?thesis
      by simp
  qed
  have f2: "sessionLog (fst (sendMessage env w sid (Some message) nt t)) sid = messages s @ [?u]"
    if "convertToGeminiContent (messages s @ [?u]) = Inl e"
  proof -
    have "generateResponse env ?w1 (messages s @ [?u]) ?ctx t
           = (?w1, Inl (Error (''Failed to generate response: '' @ message_of e)))"
      using that by (rule generateResponse_convert_fails)
    from sendMessage_log [OF s sid msg this] show ?thesis
      by simp
  qed
  from d f1 f2 show ?thesis by auto
qed

theorem turn_log_witness:
  "sessionLog (fst (sendMessage demoEnv demoWorld ''A'' (Some ''hello'') None 5)) ''A''
     = [userMessageOf ''hello'' None, \<lparr>role = Model, parts = [textPart ''no document'']\<rparr>]
   \<and> sessionLog (fst (sendMessage demoFailEnv demoWorld ''A'' (Some ''hello'') None 5)) ''A''
     = [userMessageOf ''hello'' None]"
proof -
  let ?s = "the (getSession demoWorld ''A'')"
  let ?contents = "[\<lparr>content_role = ''user'', content_parts = [textPart ''hello'']\<rparr>]"
  let ?r = "\<lparr>response_functionCalls = None, response_text = ''no document'',
              promptTokenCount = None, candidatesTokenCount = None, totalTokenCount = None\<rparr>"
  have s: "getSession demoWorld ''A'' = Some ?s"
    by code_simp
  have sid: "''A'' \<noteq> []" and msg: "''hello'' \<noteq> []"
    by simp_all
  have ms: "messages ?s = []"
    by code_simp
  have c: "convertToGeminiContent (messages ?s @ [userMessageOf ''hello'' None]) = Inr ?contents"
    by code_simp
  have g: "generateContent demoEnv (sessionPrompt demoWorld ?s) ?contents = Inr ?r"
    by code_simp
  have gf: "generateContent demoFailEnv (sessionPrompt demoWorld ?s) ?contents
              = Inl (Error ''503 Service Unavailable'')"
    by code_simp
  show ?thesis
    using turn_log [OF s sid msg, where nt = None and contents = ?contents and env = demoEnv
                      and r = ?r and t = 5] c g
          turn_log [OF s sid msg, where nt = None and contents = ?contents and env = demoFailEnv
                      and e = "Error ''503 Service Unavailable''" and t = 5] gf ms
    by simp
qed

text \<open>For the record: a turn in which \<^verbatim>\<open>generateResponse\<close> reports tool calls appends
  exactly one model message after the user message, holding the final text (when
  non-empty) and the calls.\<close>

lemma log_after_tool_call:
  assumes s: "getSession w sid = Some s" and sid: "sid \<noteq> []" and msg: "message \<noteq> []"
      and gen: "generateResponse env
                  (setSession w sid (s\<lparr>lastActivity := t, messages := messages s @ [userMessageOf message nt]\<rparr>))
                  (messages s @ [userMessageOf message nt])
                  (Some \<lparr>context_sessionId = sessionId s, context_files = filesMap (files s),
                         context_pricingContext = pricingContext s\<rparr>) t = (w2, Inr g)"
      and fcs: "functionCalls g = Some fcs"
  shows "sessionLog (fst (sendMessage env w sid (Some message) nt t)) sid
           = messages s @
             [userMessageOf message nt,
              \<lparr>role = Model,
               parts = (if response_content g \<noteq> [] then [textPart (response_content g)] else []) @
                       map callPart fcs\<rparr>]"
  using sendMessage_log [OF s sid msg gen] fcs by (simp add: modelMessageOf_def)



section \<open>The scheduler's controller receives no request\<close>

text \<open>Every route works on the controller of \<^verbatim>\<open>chatRoutes.ts\<close>; the session map of the
  controller that \<^verbatim>\<open>server.ts\<close> hands to the scheduler is never written by a request, so
  it is empty whenever the hourly sweep runs.\<close>

lemma schedulerSessions_saveTransformationResult:
  "schedulerSessions (fst (saveTransformationResult env w tid y u t)) = schedulerSessions w"
  by (auto simp: saveTransformationResult_def Let_def writeFileSync_def
           split: option.splits sum.splits if_splits)

lemma schedulerSessions_poll:
  "schedulerSessions (fst (handleGetTransformationTaskStatus env w args t)) = schedulerSessions w"
proof -
  have "schedulerSessions w1 = schedulerSessions w"
    if "saveTransformationResult env w tid y u t = (w1, r)" for w1 r tid y u
    using schedulerSessions_saveTransformationResult [of env w tid y u t] that by simp
  then show ?thesis
    by (auto simp: handleGetTransformationTaskStatus_def Let_def
             split: option.splits sum.splits prod.splits if_splits)
qed

lemma schedulerSessions_initiate:
  "schedulerSessions (fst (handleInitiatePricingPageTransformation env w args)) = schedulerSessions w"
  by (simp add: handleInitiatePricingPageTransformation_def split: option.splits sum.splits)

lemma schedulerSessions_handleToolCall:
  "schedulerSessions (fst (handleToolCall env w fc fs t)) = schedulerSessions w"
  using schedulerSessions_initiate [of env w "fc_arguments fc"]
        schedulerSessions_poll [of env w "fc_arguments fc" t]
  by (auto simp: handleToolCall_def split: prod.splits)

lemma schedulerSessions_generateResponse:
  "schedulerSessions (fst (generateResponse env w history ctx t)) = schedulerSessions w"
proof -
  have "schedulerSessions w1 = schedulerSessions w" if "handleToolCall env w fc fs t = (w1, r)" for w1 r fc fs
    using schedulerSessions_handleToolCall [of env w fc fs t] that by simp
  then show ?thesis
    by (auto simp: generateResponse_def Let_def split: sum.splits option.splits list.splits prod.splits)
qed

lemma schedulerSessions_setSession:
  "schedulerSessions (setSession w sid s) = schedulerSessions w"
  by (simp add: setSession_def)

lemma schedulerSessions_createSession:
  "schedulerSessions (fst (createSession w sid t)) = schedulerSessions w"
  by (simp add: createSession_def Let_def schedulerSessions_setSession)

lemma schedulerSessions_updatePricingContext:
  "schedulerSessions (fst (updatePricingContext w sid fid t)) = schedulerSessions w"
  by (simp add: updatePricingContext_def schedulerSessions_setSession
        split: option.splits sum.splits)

lemma schedulerSessions_clearPricingContext:
  "schedulerSessions (fst (clearPricingContext w sid t)) = schedulerSessions w"
  by (simp add: clearPricingContext_def schedulerSessions_setSession split: option.splits)

lemma schedulerSessions_unlink:
  "schedulerSessions (case unlinkSync env w p of Inl e \<Rightarrow> w | Inr w1 \<Rightarrow> w1) = schedulerSessions w"
  by (simp add: unlinkSync_def split: option.splits)

lemma schedulerSessions_saveUploadedFile:
  "schedulerSessions (fst (saveUploadedFile env w f t)) = schedulerSessions w"
  by (simp add: saveUploadedFile_def Let_def split: option.splits)

lemma schedulerSessions_uploadFile:
  "schedulerSessions (fst (uploadFile env w sid upl t)) = schedulerSessions w"
  by (simp add: uploadFile_def Let_def case_prod_beta schedulerSessions_setSession
        schedulerSessions_unlink schedulerSessions_saveUploadedFile
        split: option.splits sum.splits)

lemma schedulerSessions_sendMessage:
  "schedulerSessions (fst (sendMessage env w sid msg ctx t)) = schedulerSessions w"
  by (simp add: sendMessage_def Let_def case_prod_beta schedulerSessions_setSession
        schedulerSessions_generateResponse
        split: option.splits sum.splits)

lemma schedulerSessions_sweep:
  "schedulerSessions w = [] \<Longrightarrow> schedulerSessions (scheduledSessionCleanup env w now) = []"
  by (simp add: scheduledSessionCleanup_def cleanupInactiveSessions_def controllerSessions_def
        setControllerSessions_def)

text \<open>So in every state the server reaches, the map the scheduled sweep iterates is
  empty.\<close>

lemma reachable_scheduler_empty:
  "reachable env w \<Longrightarrow> schedulerSessions w = []"
proof (induction rule: reachable.induct)
  case (started w)
  then show ?case by simp
next
  case (created w sid t)
  then show ?case by (simp add: schedulerSessions_createSession)
next
  case (uploaded w sid upl t)
  then show ?case by (simp add: schedulerSessions_uploadFile)
next
  case (sent w sid msg ctx t)
  then show ?case by (simp add: schedulerSessions_sendMessage)
next
  case (context_set w sid fid t)
  then show ?case by (simp add: schedulerSessions_updatePricingContext)
next
  case (context_cleared w sid t)
  then show ?case by (simp add: schedulerSessions_clearPricingContext)
next
  case (stored w d)
  then show ?case by simp
next
  case (swept w t)
  then show ?case by (simp add: schedulerSessions_sweep)
qed

end
